theory Spec2Isabelle
  imports Complex_Main
begin

section \<open>JavaScript numbers\<close>

text \<open>
  Every coordinate, size and index of the whiteboard is a JavaScript \<open>number\<close>. The model
  keeps the three special values of that type apart from the finite ones, because the
  reducer receives pointer coordinates unchecked. A field that the types call \<open>number\<close> can
  hold one more value at run time: \<open>null\<close>, which \<open>JSON.parse\<close> returns where
  \<open>JSON.stringify\<close> wrote a number that is not finite. The special values follow ECMAScript:
  NaN is absorbing, comparisons with NaN are false, \<open>Infinity - Infinity\<close> and
  \<open>0 * Infinity\<close> are NaN, and every operation first converts its operands with
  \<open>ToNumber\<close>, which turns \<open>null\<close> into 0. The sign of zero is not modelled.

  A finite number is a real. The operations \<open>+\<close>, \<open>-\<close>, \<open>*\<close>, \<open>/\<close> below are exact on finite
  numbers; they model the arithmetic whose results are coordinates handed to the canvas
  and particles. The hit test compares its results on an inclusive boundary, where the
  rounding of the engine decides; its operations are the rounded ones of the next section.
\<close>

datatype jsnum = Number real | Infinity | NegInfinity | NaN | Null

fun toNumber :: "jsnum \<Rightarrow> jsnum" where
  "toNumber Null = Number 0"
| "toNumber a = a"

fun isFinite :: "jsnum \<Rightarrow> bool" where
  "isFinite (Number r) = True"
| "isFinite a = False"

text \<open>
  The functions below take the results of \<open>toNumber\<close>; their last equation, for \<open>null\<close>, is
  never reached through the operations of the type.
\<close>

fun jsign :: "jsnum \<Rightarrow> int" where
  "jsign (Number r) = (if r > 0 then 1 else if r < 0 then - 1 else 0)"
| "jsign Infinity = 1"
| "jsign NegInfinity = - 1"
| "jsign a = 0"

definition signedInfinity :: "int \<Rightarrow> jsnum" where
  "signedInfinity k = (if k > 0 then Infinity else if k < 0 then NegInfinity else NaN)"

fun negate :: "jsnum \<Rightarrow> jsnum" where
  "negate (Number r) = Number (- r)"
| "negate Infinity = NegInfinity"
| "negate NegInfinity = Infinity"
| "negate a = NaN"

fun addNumbers :: "jsnum \<Rightarrow> jsnum \<Rightarrow> jsnum" where
  "addNumbers (Number a) (Number b) = Number (a + b)"
| "addNumbers Infinity (Number b) = Infinity"
| "addNumbers (Number a) Infinity = Infinity"
| "addNumbers Infinity Infinity = Infinity"
| "addNumbers NegInfinity (Number b) = NegInfinity"
| "addNumbers (Number a) NegInfinity = NegInfinity"
| "addNumbers NegInfinity NegInfinity = NegInfinity"
| "addNumbers a b = NaN"

fun multiplyNumbers :: "jsnum \<Rightarrow> jsnum \<Rightarrow> jsnum" where
  "multiplyNumbers (Number a) (Number b) = Number (a * b)"
| "multiplyNumbers NaN b = NaN"
| "multiplyNumbers a NaN = NaN"
| "multiplyNumbers Null b = NaN"
| "multiplyNumbers a Null = NaN"
| "multiplyNumbers a b = signedInfinity (jsign a * jsign b)"

fun divideNumbers :: "jsnum \<Rightarrow> jsnum \<Rightarrow> jsnum" where
  "divideNumbers (Number a) (Number b) =
     (if b = 0 then signedInfinity (jsign (Number a)) else Number (a / b))"
| "divideNumbers (Number a) Infinity = Number 0"
| "divideNumbers (Number a) NegInfinity = Number 0"
| "divideNumbers Infinity (Number b) = (if b < 0 then NegInfinity else Infinity)"
| "divideNumbers NegInfinity (Number b) = (if b < 0 then Infinity else NegInfinity)"
| "divideNumbers a b = NaN"

fun lessNumbers :: "jsnum \<Rightarrow> jsnum \<Rightarrow> bool" where
  "lessNumbers (Number a) (Number b) = (a < b)"
| "lessNumbers (Number a) Infinity = True"
| "lessNumbers NegInfinity (Number b) = True"
| "lessNumbers NegInfinity Infinity = True"
| "lessNumbers a b = False"

fun lessEqNumbers :: "jsnum \<Rightarrow> jsnum \<Rightarrow> bool" where
  "lessEqNumbers (Number a) (Number b) = (a \<le> b)"
| "lessEqNumbers (Number a) Infinity = True"
| "lessEqNumbers NegInfinity (Number b) = True"
| "lessEqNumbers NegInfinity Infinity = True"
| "lessEqNumbers Infinity Infinity = True"
| "lessEqNumbers NegInfinity NegInfinity = True"
| "lessEqNumbers a b = False"

instantiation jsnum :: "{plus, uminus, minus, times, divide, ord}"
begin

definition uminus_jsnum :: "jsnum \<Rightarrow> jsnum" where
  "uminus_jsnum a = negate (toNumber a)"

definition plus_jsnum :: "jsnum \<Rightarrow> jsnum \<Rightarrow> jsnum" where
  "plus_jsnum a b = addNumbers (toNumber a) (toNumber b)"

definition minus_jsnum :: "jsnum \<Rightarrow> jsnum \<Rightarrow> jsnum" where
  "minus_jsnum a b = addNumbers (toNumber a) (negate (toNumber b))"

definition times_jsnum :: "jsnum \<Rightarrow> jsnum \<Rightarrow> jsnum" where
  "times_jsnum a b = multiplyNumbers (toNumber a) (toNumber b)"

definition divide_jsnum :: "jsnum \<Rightarrow> jsnum \<Rightarrow> jsnum" where
  "divide_jsnum a b = divideNumbers (toNumber a) (toNumber b)"

definition less_jsnum :: "jsnum \<Rightarrow> jsnum \<Rightarrow> bool" where
  "less_jsnum a b = lessNumbers (toNumber a) (toNumber b)"

definition less_eq_jsnum :: "jsnum \<Rightarrow> jsnum \<Rightarrow> bool" where
  "less_eq_jsnum a b = lessEqNumbers (toNumber a) (toNumber b)"

instance ..

end

instantiation jsnum :: inverse
begin

definition inverse_jsnum :: "jsnum \<Rightarrow> jsnum" where
  "inverse_jsnum a = divide (Number 1) a"

instance ..

end

text \<open>The functions of the \<open>Math\<close> object that the program calls.\<close>

definition Math_max :: "jsnum \<Rightarrow> jsnum \<Rightarrow> jsnum" where
  "Math_max a b =
     (if toNumber a = NaN \<or> toNumber b = NaN then NaN
      else if a \<le> b then toNumber b else toNumber a)"

definition Math_min :: "jsnum \<Rightarrow> jsnum \<Rightarrow> jsnum" where
  "Math_min a b =
     (if toNumber a = NaN \<or> toNumber b = NaN then NaN
      else if a \<le> b then toNumber a else toNumber b)"

fun sqrtNumber :: "jsnum \<Rightarrow> jsnum" where
  "sqrtNumber (Number r) = (if r < 0 then NaN else Number (sqrt r))"
| "sqrtNumber Infinity = Infinity"
| "sqrtNumber a = NaN"

definition Math_sqrt :: "jsnum \<Rightarrow> jsnum" where
  "Math_sqrt a = sqrtNumber (toNumber a)"

fun floorNumber :: "jsnum \<Rightarrow> jsnum" where
  "floorNumber (Number r) = Number (of_int \<lfloor>r\<rfloor>)"
| "floorNumber a = a"

definition Math_floor :: "jsnum \<Rightarrow> jsnum" where
  "Math_floor a = floorNumber (toNumber a)"

fun cosNumber :: "jsnum \<Rightarrow> jsnum" where
  "cosNumber (Number r) = Number (cos r)"
| "cosNumber a = NaN"

definition Math_cos :: "jsnum \<Rightarrow> jsnum" where
  "Math_cos a = cosNumber (toNumber a)"

fun sinNumber :: "jsnum \<Rightarrow> jsnum" where
  "sinNumber (Number r) = Number (sin r)"
| "sinNumber a = NaN"

definition Math_sin :: "jsnum \<Rightarrow> jsnum" where
  "Math_sin a = sinNumber (toNumber a)"

definition Math_PI :: jsnum where
  "Math_PI = Number pi"

text \<open>A loop counter \<open>i\<close> of the program, which counts up from 0 in steps of 1.\<close>

definition jsnat :: "nat \<Rightarrow> jsnum" where
  "jsnat i = Number (real i)"

section \<open>Rounding to binary64\<close>

text \<open>
  A JavaScript number is an IEEE 754 binary64 value, and every arithmetic operation returns
  the value nearest to the exact result, ties to the even significand, or an infinity when
  that value is beyond the largest finite one. \<open>binary64 x\<close> is the rounding of the real
  \<open>x\<close>: with \<open>e\<close> the exponent of \<open>x\<close>, at least the smallest exponent -1022 of a normal
  number, the values near \<open>x\<close> are the integer multiples of \<open>2\<^sup>e\<^sup>-\<^sup>5\<^sup>2\<close>.
\<close>

definition roundHalfEven :: "real \<Rightarrow> int" where
  "roundHalfEven x =
     (let f = \<lfloor>x\<rfloor>; d = x - of_int f
      in if d < 1 / 2 then f
         else if 1 / 2 < d then f + 1
         else if even f then f else f + 1)"

definition binary64 :: "real \<Rightarrow> jsnum" where
  "binary64 x =
     (if x = 0 then Number 0
      else
        (let e = max \<lfloor>log 2 \<bar>x\<bar>\<rfloor> (- 1022);
             u = 2 powi (e - 52);
             y = of_int (roundHalfEven (x / u)) * u
         in if 2 ^ 1024 \<le> \<bar>y\<bar> then (if 0 < x then Infinity else NegInfinity)
            else Number y))"

fun round64 :: "jsnum \<Rightarrow> jsnum" where
  "round64 (Number r) = binary64 r"
| "round64 a = a"

definition add64 :: "jsnum \<Rightarrow> jsnum \<Rightarrow> jsnum" where
  "add64 a b = round64 (a + b)"

definition sub64 :: "jsnum \<Rightarrow> jsnum \<Rightarrow> jsnum" where
  "sub64 a b = round64 (a - b)"

definition mul64 :: "jsnum \<Rightarrow> jsnum \<Rightarrow> jsnum" where
  "mul64 a b = round64 (a * b)"

definition div64 :: "jsnum \<Rightarrow> jsnum \<Rightarrow> jsnum" where
  "div64 a b = round64 (a / b)"

section \<open>The element model\<close>

datatype Brush = Pencil | Marker | Highlighter | Airbrush

datatype Tool = Pen | Eraser | Select | ShapeTool

datatype StrokeTool = StrokePen | StrokeEraser

record Point =
  pt_x :: jsnum
  pt_y :: jsnum

record StrokeStyle =
  st_tool :: StrokeTool
  st_brush :: Brush
  st_color :: string
  st_size :: jsnum

datatype ShapeType = Rect | Ellipse | Triangle | Star | Line | Pentagon | Tree | Umbrella | Heart

record Dot =
  dot_x :: jsnum
  dot_y :: jsnum
  dot_r :: jsnum
  dot_a :: jsnum

text \<open>The field \<open>dots\<close> is optional in the source: \<open>None\<close> is \<open>undefined\<close>.\<close>

record StrokeElement =
  se_id :: string
  se_points :: "Point list"
  se_style :: StrokeStyle
  se_dots :: "Dot list option"

record ShapeElement =
  sh_id :: string
  sh_shape :: ShapeType
  sh_x1 :: jsnum
  sh_y1 :: jsnum
  sh_x2 :: jsnum
  sh_y2 :: jsnum
  sh_color :: string
  sh_size :: jsnum

text \<open>The tag \<open>kind\<close> of the source's union type is the constructor.\<close>

datatype Element = Stroke StrokeElement | Shape ShapeElement

fun element_id :: "Element \<Rightarrow> string" where
  "element_id (Stroke st) = se_id st"
| "element_id (Shape sh) = sh_id sh"

section \<open>The geometry kernel\<close>

text \<open>
  \<open>dist\<close> and \<open>normalizeRect\<close> are the same in both variants of the application; the
  other functions are those of the variant with all nine shape kinds. \<open>normalizeRect\<close> is
  given twice: with the exact subtractions, as the renderer's paths use it, and with the
  rounded subtractions, as the hit test uses it.
\<close>

definition dist :: "Point \<Rightarrow> Point \<Rightarrow> jsnum" where
  "dist a b =
     (let dx = pt_x a - pt_x b;
          dy = pt_y a - pt_y b
      in Math_sqrt (dx * dx + dy * dy))"

record NormRect =
  r_left :: jsnum
  r_top :: jsnum
  r_right :: jsnum
  r_bottom :: jsnum
  r_w :: jsnum
  r_h :: jsnum

definition normalizeRect :: "jsnum \<Rightarrow> jsnum \<Rightarrow> jsnum \<Rightarrow> jsnum \<Rightarrow> NormRect" where
  "normalizeRect x1 y1 x2 y2 =
     (let l = Math_min x1 x2;
          t = Math_min y1 y2;
          r = Math_max x1 x2;
          b = Math_max y1 y2
      in \<lparr>r_left = l, r_top = t, r_right = r, r_bottom = b, r_w = r - l, r_h = b - t\<rparr>)"

definition normalizeRect64 :: "jsnum \<Rightarrow> jsnum \<Rightarrow> jsnum \<Rightarrow> jsnum \<Rightarrow> NormRect" where
  "normalizeRect64 x1 y1 x2 y2 =
     (let l = Math_min x1 x2;
          t = Math_min y1 y2;
          r = Math_max x1 x2;
          b = Math_max y1 y2
      in \<lparr>r_left = l, r_top = t, r_right = r, r_bottom = b, r_w = sub64 r l, r_h = sub64 b t\<rparr>)"

text \<open>The literal \<open>1e-6\<close> of the source is the binary64 value nearest to it.\<close>

definition epsilon :: jsnum where
  "epsilon = binary64 (1 / 1000000)"

text \<open>
  The three local quantities of the line branch of \<open>hitTestShape\<close>: the threshold \<open>pad\<close>;
  the squared length of the segment, the divisor of the only division of that branch; and
  the projection parameter after clamping.
\<close>

definition hit_pad :: "ShapeElement \<Rightarrow> jsnum" where
  "hit_pad shape = Math_max (Number 6) (sh_size shape)"

definition line_len2 :: "ShapeElement \<Rightarrow> jsnum" where
  "line_len2 shape =
     (let dx = sub64 (sh_x2 shape) (sh_x1 shape);
          dy = sub64 (sh_y2 shape) (sh_y1 shape)
      in add64 (mul64 dx dx) (mul64 dy dy))"

definition line_t :: "ShapeElement \<Rightarrow> Point \<Rightarrow> jsnum" where
  "line_t shape p =
     (let dx = sub64 (sh_x2 shape) (sh_x1 shape);
          dy = sub64 (sh_y2 shape) (sh_y1 shape);
          t = div64 (add64 (mul64 (sub64 (pt_x p) (sh_x1 shape)) dx)
                           (mul64 (sub64 (pt_y p) (sh_y1 shape)) dy))
                    (line_len2 shape)
      in Math_max (Number 0) (Math_min (Number 1) t))"

definition hitTestShape :: "ShapeElement \<Rightarrow> Point \<Rightarrow> bool" where
  "hitTestShape shape p =
     (let pad = hit_pad shape in
      if sh_shape shape = Line then
        (let x1 = sh_x1 shape; y1 = sh_y1 shape; x2 = sh_x2 shape; y2 = sh_y2 shape;
             px = pt_x p; py = pt_y p;
             dx = sub64 x2 x1; dy = sub64 y2 y1;
             len2 = line_len2 shape
         in if len2 < epsilon then
              (let ddx = sub64 px x1; ddy = sub64 py y1
               in add64 (mul64 ddx ddx) (mul64 ddy ddy)
                  \<le> mul64 (add64 pad (Number 2)) (add64 pad (Number 2)))
            else
              (let t = line_t shape p;
                   cx = add64 x1 (mul64 t dx); cy = add64 y1 (mul64 t dy);
                   ddx = sub64 px cx; ddy = sub64 py cy
               in add64 (mul64 ddx ddx) (mul64 ddy ddy)
                  \<le> mul64 (add64 pad (Number 2)) (add64 pad (Number 2))))
      else
        (let r = normalizeRect64 (sh_x1 shape) (sh_y1 shape) (sh_x2 shape) (sh_y2 shape);
             x = pt_x p; y = pt_y p
         in if sh_shape shape \<noteq> Ellipse then
              sub64 (r_left r) pad \<le> x \<and> x \<le> add64 (r_right r) pad \<and>
              sub64 (r_top r) pad \<le> y \<and> y \<le> add64 (r_bottom r) pad
            else
              (let cx = add64 (r_left r) (div64 (r_w r) (Number 2));
                   cy = add64 (r_top r) (div64 (r_h r) (Number 2));
                   rx = add64 (Math_max (Number 1) (div64 (r_w r) (Number 2))) pad;
                   ry = add64 (Math_max (Number 1) (div64 (r_h r) (Number 2))) pad;
                   nx = div64 (sub64 x cx) rx;
                   ny = div64 (sub64 y cy) ry
               in add64 (mul64 nx nx) (mul64 ny ny) \<le> Number 1)))"

section \<open>Shape path construction\<close>

text \<open>
  The renderer writes to a 2D canvas context. The model returns the calls that
  \<open>drawShape\<close> makes on the context, in order; an assignment to a property of the context
  is a call of its own.
\<close>

datatype CanvasOp =
    Save
  | Restore
  | SetGlobalCompositeOperation string
  | SetStrokeStyle string
  | SetLineWidth jsnum
  | SetLineJoin string
  | SetLineCap string
  | BeginPath
  | MoveTo jsnum jsnum
  | LineTo jsnum jsnum
  | ClosePath
  | StrokePath
  | StrokeRect jsnum jsnum jsnum jsnum
  | EllipsePath jsnum jsnum jsnum jsnum jsnum jsnum jsnum
  | QuadraticCurveTo jsnum jsnum jsnum jsnum
  | BezierCurveTo jsnum jsnum jsnum jsnum jsnum jsnum
  | Arc jsnum jsnum jsnum jsnum jsnum bool

text \<open>The body of the loop of the pentagon branch, at counter \<open>i\<close>.\<close>

definition pentagonVertex :: "jsnum \<Rightarrow> jsnum \<Rightarrow> jsnum \<Rightarrow> nat \<Rightarrow> CanvasOp" where
  "pentagonVertex cx cy rad i =
     (let ang = (- Math_PI) / Number 2 + (jsnat i * Number 2 * Math_PI) / Number 5;
          x = cx + Math_cos ang * rad;
          y = cy + Math_sin ang * rad
      in if i = 0 then MoveTo x y else LineTo x y)"

text \<open>The body of the loop of the star branch, at counter \<open>i\<close>.\<close>

definition starVertex :: "jsnum \<Rightarrow> jsnum \<Rightarrow> jsnum \<Rightarrow> jsnum \<Rightarrow> nat \<Rightarrow> CanvasOp" where
  "starVertex cx cy outer inner i =
     (let ang = (- Math_PI) / Number 2 + (jsnat i * Math_PI) / Number 5;
          rad = (if i mod 2 = 0 then outer else inner);
          x = cx + Math_cos ang * rad;
          y = cy + Math_sin ang * rad
      in if i = 0 then MoveTo x y else LineTo x y)"

text \<open>The body of the loop over the scallops of the umbrella, at counter \<open>i\<close>.\<close>

definition scallop :: "jsnum \<Rightarrow> jsnum \<Rightarrow> jsnum \<Rightarrow> jsnum \<Rightarrow> nat \<Rightarrow> CanvasOp" where
  "scallop lft seg canopyBottom scallopDepth i =
     (let x0 = lft + jsnat i * seg;
          x1 = x0 + seg;
          xm = (x0 + x1) / Number 2
      in QuadraticCurveTo xm (canopyBottom + scallopDepth) x1 canopyBottom)"

definition drawUmbrella :: "NormRect \<Rightarrow> jsnum \<Rightarrow> CanvasOp list" where
  "drawUmbrella r cx =
     (let x = r_left r;
          y = r_top r;
          w = Math_max (Number 12) (r_w r);
          h = Math_max (Number 12) (r_h r);
          lft = x + w * Number 0.12;
          rgt = x + w * Number 0.88;
          tp = y + h * Number 0.10;
          canopyBottom = y + h * Number 0.55;
          scallopDepth = Math_min (h * Number 0.09) ((rgt - lft) * Number 0.07);
          scallops = 4;
          seg = (rgt - lft) / jsnat scallops;
          stemTop = canopyBottom;
          stemBottom = y + h * Number 0.86;
          hookR = Math_min w h * Number 0.12;
          hookCx = cx + hookR;
          hookCy = Math_min (y + h * Number 0.94) (stemBottom + hookR)
      in [BeginPath, MoveTo lft canopyBottom, QuadraticCurveTo cx tp rgt canopyBottom]
         @ map (scallop lft seg canopyBottom scallopDepth) [0..<scallops]
         @ [StrokePath,
            BeginPath, MoveTo cx (tp + h * Number 0.06), LineTo cx canopyBottom, StrokePath,
            BeginPath, MoveTo cx stemTop, LineTo cx stemBottom, StrokePath,
            BeginPath, Arc hookCx hookCy hookR Math_PI (Math_PI * Number 1.55) False, StrokePath,
            Restore])"

definition drawHeart :: "NormRect \<Rightarrow> CanvasOp list" where
  "drawHeart r =
     (let x = r_left r;
          y = r_top r;
          w = Math_max (Number 12) (r_w r);
          h = Math_max (Number 12) (r_h r);
          cx2 = x + w / Number 2;
          bottomY = y + h;
          topY = y + h * Number 0.30;
          dipY = y + h * Number 0.22
      in [BeginPath,
          MoveTo cx2 bottomY,
          BezierCurveTo (x + w * Number 0.05) (y + h * Number 0.75) x (y + h * Number 0.50)
            (x + w * Number 0.25) topY,
          BezierCurveTo (x + w * Number 0.20) (y + h * Number 0.06) (cx2 - w * Number 0.18)
            (y + h * Number 0.06) cx2 dipY,
          BezierCurveTo (cx2 + w * Number 0.18) (y + h * Number 0.06) (x + w * Number 0.80)
            (y + h * Number 0.06) (x + w * Number 0.75) topY,
          BezierCurveTo (x + w) (y + h * Number 0.50) (x + w * Number 0.95) (y + h * Number 0.75)
            cx2 bottomY,
          ClosePath, StrokePath, Restore])"

definition drawShape :: "ShapeElement \<Rightarrow> CanvasOp list" where
  "drawShape el =
     (let r = normalizeRect (sh_x1 el) (sh_y1 el) (sh_x2 el) (sh_y2 el);
          prelude = [Save,
                     SetGlobalCompositeOperation ''source-over'',
                     SetStrokeStyle (sh_color el),
                     SetLineWidth (Math_max (Number 1) (sh_size el)),
                     SetLineJoin ''round'',
                     SetLineCap ''round''];
          cx = r_left r + r_w r / Number 2;
          cy = r_top r + r_h r / Number 2
      in prelude @
        (case sh_shape el of
           Line \<Rightarrow>
             [BeginPath, MoveTo (sh_x1 el) (sh_y1 el), LineTo (sh_x2 el) (sh_y2 el), StrokePath,
              Restore]
         | Rect \<Rightarrow> [StrokeRect (r_left r) (r_top r) (r_w r) (r_h r), Restore]
         | Ellipse \<Rightarrow>
             [BeginPath,
              EllipsePath cx cy (Math_max (Number 1) (r_w r / Number 2))
                (Math_max (Number 1) (r_h r / Number 2)) (Number 0) (Number 0)
                (Math_PI * Number 2),
              StrokePath, Restore]
         | Triangle \<Rightarrow>
             (let x1 = r_left r + r_w r / Number 2; y1 = r_top r;
                  x2 = r_left r; y2 = r_bottom r;
                  x3 = r_right r; y3 = r_bottom r
              in [BeginPath, MoveTo x1 y1, LineTo x2 y2, LineTo x3 y3, ClosePath, StrokePath,
                  Restore])
         | Pentagon \<Rightarrow>
             (let rad = Math_max (Number 6) (Math_min (r_w r) (r_h r) / Number 2)
              in [BeginPath] @ map (pentagonVertex cx cy rad) [0..<5]
                 @ [ClosePath, StrokePath, Restore])
         | Star \<Rightarrow>
             (let outer = Math_max (Number 6) (Math_min (r_w r) (r_h r) / Number 2);
                  inner = outer * Number 0.5
              in [BeginPath] @ map (starVertex cx cy outer inner) [0..<10]
                 @ [ClosePath, StrokePath, Restore])
         | Tree \<Rightarrow>
             (let trunkH = Math_max (Number 6) (r_h r * Number 0.18);
                  trunkW = Math_max (Number 6) (r_w r * Number 0.18);
                  topY = r_top r;
                  baseY = r_bottom r - trunkH;
                  tx = cx - trunkW / Number 2;
                  ty = baseY
              in [BeginPath, MoveTo cx topY, LineTo (r_left r) baseY, LineTo (r_right r) baseY,
                  ClosePath, StrokePath,
                  StrokeRect tx ty trunkW trunkH, Restore])
         | Umbrella \<Rightarrow> drawUmbrella r cx
         | Heart \<Rightarrow> drawHeart r))"

section \<open>The airbrush sampler\<close>

text \<open>
  \<open>Math.random()\<close> is modelled by a sequence \<open>rnd\<close> of reals and the number \<open>k\<close> of
  values already drawn from it. Both loops compare a counter with a JavaScript number; such
  a loop does not end when that number is \<open>Infinity\<close>, so both are partial functions, and
  \<open>None\<close> is a loop that runs forever.
\<close>

definition airbrushDot :: "(nat \<Rightarrow> real) \<Rightarrow> jsnum \<Rightarrow> jsnum \<Rightarrow> jsnum \<Rightarrow> nat \<Rightarrow> Dot" where
  "airbrushDot rnd radius x y k =
     (let ang = Number (rnd k) * Math_PI * Number 2;
          r = Number (rnd (k + 1)) * radius;
          dx = Math_cos ang * r;
          dy = Math_sin ang * r;
          dotSize = Math_max (Number 1) (Number (rnd (k + 2)) * (radius / Number 3))
      in \<lparr>dot_x = x + dx, dot_y = y + dy, dot_r = dotSize, dot_a = Number 0.20\<rparr>)"

partial_function (option) airbrushInner ::
  "(nat \<Rightarrow> real) \<Rightarrow> jsnum \<Rightarrow> jsnum \<Rightarrow> jsnum \<Rightarrow> jsnum \<Rightarrow> nat \<Rightarrow> Dot list \<Rightarrow> nat
    \<Rightarrow> (Dot list \<times> nat) option" where
  "airbrushInner rnd radius count x y j dots k =
     (if jsnat j < count
      then airbrushInner rnd radius count x y (Suc j) (dots @ [airbrushDot rnd radius x y k]) (k + 3)
      else Some (dots, k))"

partial_function (option) airbrushOuter ::
  "(nat \<Rightarrow> real) \<Rightarrow> Point \<Rightarrow> Point \<Rightarrow> jsnum \<Rightarrow> jsnum \<Rightarrow> nat \<Rightarrow> Dot list \<Rightarrow> nat
    \<Rightarrow> (Dot list \<times> nat) option" where
  "airbrushOuter rnd from to steps radius i dots k =
     (if jsnat i \<le> steps
      then
        (let t = jsnat i / steps;
             x = pt_x from + (pt_x to - pt_x from) * t;
             y = pt_y from + (pt_y to - pt_y from) * t;
             count = Math_floor (radius * Number 1.6)
         in Option.bind (airbrushInner rnd radius count x y 0 dots k)
              (\<lambda>(dots', k'). airbrushOuter rnd from to steps radius (Suc i) dots' k'))
      else Some (dots, k))"

definition addAirbrushDots ::
  "(nat \<Rightarrow> real) \<Rightarrow> StrokeElement \<Rightarrow> Point \<Rightarrow> Point \<Rightarrow> StrokeElement option" where
  "addAirbrushDots rnd stroke from to =
     (let d = dist from to;
          steps = Math_max (Number 1) (Math_floor (d / Number 2));
          radius = Math_max (Number 2) (st_size (se_style stroke));
          dots = (case se_dots stroke of None \<Rightarrow> [] | Some ds \<Rightarrow> ds)
      in map_option (\<lambda>(dots', k'). stroke\<lparr>se_dots := Some dots'\<rparr>)
           (airbrushOuter rnd from to steps radius 0 dots 0))"

section \<open>JSON\<close>

text \<open>
  Modelled from the ECMAScript specification of \<open>JSON.stringify\<close> and \<open>JSON.parse\<close>, which
  are functions of the engine. \<open>JSON.stringify\<close> writes a text; the model keeps the value
  that the text denotes, with the members of an object in the order in which the text
  lists them, which is the order in which the properties of the object were created. The
  text is a function of this value, and different values have different texts, so two
  texts are equal byte for byte exactly when the values are equal. A number that is not
  finite is written as \<open>null\<close>, and a property whose value is \<open>undefined\<close> is left out.
\<close>

datatype json =
    JNull
  | JBool bool
  | JNumber real
  | JString string
  | JArray "json list"
  | JObject "(string \<times> json) list"

fun jsonNumber :: "jsnum \<Rightarrow> json" where
  "jsonNumber (Number r) = JNumber r"
| "jsonNumber a = JNull"

fun strokeToolName :: "StrokeTool \<Rightarrow> string" where
  "strokeToolName StrokePen = ''pen''"
| "strokeToolName StrokeEraser = ''eraser''"

fun brushName :: "Brush \<Rightarrow> string" where
  "brushName Pencil = ''pencil''"
| "brushName Marker = ''marker''"
| "brushName Highlighter = ''highlighter''"
| "brushName Airbrush = ''airbrush''"

fun shapeName :: "ShapeType \<Rightarrow> string" where
  "shapeName Rect = ''rect''"
| "shapeName Ellipse = ''ellipse''"
| "shapeName Triangle = ''triangle''"
| "shapeName Star = ''star''"
| "shapeName Line = ''line''"
| "shapeName Pentagon = ''pentagon''"
| "shapeName Tree = ''tree''"
| "shapeName Umbrella = ''umbrella''"
| "shapeName Heart = ''heart''"

definition jsonPoint :: "Point \<Rightarrow> json" where
  "jsonPoint p = JObject [(''x'', jsonNumber (pt_x p)), (''y'', jsonNumber (pt_y p))]"

definition jsonStyle :: "StrokeStyle \<Rightarrow> json" where
  "jsonStyle st =
     JObject [(''tool'', JString (strokeToolName (st_tool st))),
              (''brush'', JString (brushName (st_brush st))),
              (''color'', JString (st_color st)),
              (''size'', jsonNumber (st_size st))]"

definition jsonDot :: "Dot \<Rightarrow> json" where
  "jsonDot d =
     JObject [(''x'', jsonNumber (dot_x d)), (''y'', jsonNumber (dot_y d)),
              (''r'', jsonNumber (dot_r d)), (''a'', jsonNumber (dot_a d))]"

definition jsonStroke :: "StrokeElement \<Rightarrow> json" where
  "jsonStroke st =
     JObject ([(''id'', JString (se_id st)),
               (''kind'', JString ''stroke''),
               (''points'', JArray (map jsonPoint (se_points st))),
               (''style'', jsonStyle (se_style st))]
              @ (case se_dots st of
                   None \<Rightarrow> []
                 | Some ds \<Rightarrow> [(''dots'', JArray (map jsonDot ds))]))"

definition jsonShape :: "ShapeElement \<Rightarrow> json" where
  "jsonShape sh =
     JObject [(''id'', JString (sh_id sh)),
              (''kind'', JString ''shape''),
              (''shape'', JString (shapeName (sh_shape sh))),
              (''x1'', jsonNumber (sh_x1 sh)), (''y1'', jsonNumber (sh_y1 sh)),
              (''x2'', jsonNumber (sh_x2 sh)), (''y2'', jsonNumber (sh_y2 sh)),
              (''color'', JString (sh_color sh)),
              (''size'', jsonNumber (sh_size sh))]"

fun jsonElement :: "Element \<Rightarrow> json" where
  "jsonElement (Stroke st) = jsonStroke st"
| "jsonElement (Shape sh) = jsonShape sh"

definition jsonScene :: "Element list \<Rightarrow> json" where
  "jsonScene scene = JArray (map jsonElement scene)"

text \<open>\<open>JSON.stringify({ scene: snapshot, historyIndex: n })\<close>\<close>

definition savedItem :: "Element list \<Rightarrow> int \<Rightarrow> json" where
  "savedItem snapshot n = JObject [(''scene'', jsonScene snapshot), (''historyIndex'', JNumber (of_int n))]"

text \<open>
  \<open>JSON.parse\<close> returns the value that a text denotes. The source casts the parsed scene to
  \<open>Element[]\<close> without a check. The functions below read a parsed value as an element when
  it has the members of one, with \<open>null\<close> allowed where a number is expected; they return
  \<open>None\<close> for a value that is not an element of the model.
\<close>

fun member :: "string \<Rightarrow> json \<Rightarrow> json option" where
  "member k (JObject kvs) = map_of kvs k"
| "member k j = None"

fun numberOf :: "json option \<Rightarrow> jsnum option" where
  "numberOf (Some (JNumber r)) = Some (Number r)"
| "numberOf (Some JNull) = Some Null"
| "numberOf j = None"

fun stringOf :: "json option \<Rightarrow> string option" where
  "stringOf (Some (JString s)) = Some s"
| "stringOf j = None"

fun arrayOf :: "json option \<Rightarrow> json list option" where
  "arrayOf (Some (JArray xs)) = Some xs"
| "arrayOf j = None"

definition enumOf :: "('a \<Rightarrow> string) \<Rightarrow> 'a list \<Rightarrow> json option \<Rightarrow> 'a option" where
  "enumOf name values j =
     (case stringOf j of
        None \<Rightarrow> None
      | Some s \<Rightarrow> find (\<lambda>v. name v = s) values)"

fun readList :: "(json \<Rightarrow> 'a option) \<Rightarrow> json list \<Rightarrow> 'a list option" where
  "readList f [] = Some []"
| "readList f (j # js) =
     (case f j of
        None \<Rightarrow> None
      | Some x \<Rightarrow> (case readList f js of None \<Rightarrow> None | Some xs \<Rightarrow> Some (x # xs)))"

definition readPoint :: "json \<Rightarrow> Point option" where
  "readPoint j =
     (case (numberOf (member ''x'' j), numberOf (member ''y'' j)) of
        (Some x, Some y) \<Rightarrow> Some \<lparr>pt_x = x, pt_y = y\<rparr>
      | _ \<Rightarrow> None)"

definition readStyle :: "json \<Rightarrow> StrokeStyle option" where
  "readStyle j =
     (case (enumOf strokeToolName [StrokePen, StrokeEraser] (member ''tool'' j),
            enumOf brushName [Pencil, Marker, Highlighter, Airbrush] (member ''brush'' j),
            stringOf (member ''color'' j),
            numberOf (member ''size'' j)) of
        (Some t, Some b, Some c, Some n) \<Rightarrow>
          Some \<lparr>st_tool = t, st_brush = b, st_color = c, st_size = n\<rparr>
      | _ \<Rightarrow> None)"

definition readDot :: "json \<Rightarrow> Dot option" where
  "readDot j =
     (case (numberOf (member ''x'' j), numberOf (member ''y'' j),
            numberOf (member ''r'' j), numberOf (member ''a'' j)) of
        (Some x, Some y, Some r, Some a) \<Rightarrow> Some \<lparr>dot_x = x, dot_y = y, dot_r = r, dot_a = a\<rparr>
      | _ \<Rightarrow> None)"

text \<open>A stroke without the member \<open>dots\<close> has \<open>dots\<close> undefined.\<close>

definition readDots :: "json \<Rightarrow> Dot list option option" where
  "readDots j =
     (case member ''dots'' j of
        None \<Rightarrow> Some None
      | Some (JArray ds) \<Rightarrow> map_option Some (readList readDot ds)
      | Some v \<Rightarrow> None)"

definition readStroke :: "json \<Rightarrow> StrokeElement option" where
  "readStroke j =
     (case (stringOf (member ''id'' j),
            Option.bind (arrayOf (member ''points'' j)) (readList readPoint),
            Option.bind (member ''style'' j) readStyle,
            readDots j) of
        (Some i, Some ps, Some st, Some ds) \<Rightarrow>
          Some \<lparr>se_id = i, se_points = ps, se_style = st, se_dots = ds\<rparr>
      | _ \<Rightarrow> None)"

definition readShape :: "json \<Rightarrow> ShapeElement option" where
  "readShape j =
     (case (stringOf (member ''id'' j),
            enumOf shapeName [Rect, Ellipse, Triangle, Star, Line, Pentagon, Tree, Umbrella, Heart]
              (member ''shape'' j),
            numberOf (member ''x1'' j), numberOf (member ''y1'' j),
            numberOf (member ''x2'' j), numberOf (member ''y2'' j),
            stringOf (member ''color'' j),
            numberOf (member ''size'' j)) of
        (Some i, Some k, Some x1, Some y1, Some x2, Some y2, Some c, Some n) \<Rightarrow>
          Some \<lparr>sh_id = i, sh_shape = k, sh_x1 = x1, sh_y1 = y1, sh_x2 = x2, sh_y2 = y2,
                sh_color = c, sh_size = n\<rparr>
      | _ \<Rightarrow> None)"

definition readElement :: "json \<Rightarrow> Element option" where
  "readElement j =
     (case stringOf (member ''kind'' j) of
        None \<Rightarrow> None
      | Some k \<Rightarrow>
          if k = ''stroke'' then map_option Stroke (readStroke j)
          else if k = ''shape'' then map_option Shape (readShape j)
          else None)"

text \<open>
  \<open>JSON.parse(JSON.stringify(scene))\<close> on a scene of the model: the numbers that are not
  finite come back as \<open>null\<close>, everything else as it was (lemma \<open>readElement_jsonElement\<close>).
\<close>

fun reparsedNumber :: "jsnum \<Rightarrow> jsnum" where
  "reparsedNumber (Number r) = Number r"
| "reparsedNumber a = Null"

definition reparsedPoint :: "Point \<Rightarrow> Point" where
  "reparsedPoint p = \<lparr>pt_x = reparsedNumber (pt_x p), pt_y = reparsedNumber (pt_y p)\<rparr>"

definition reparsedDot :: "Dot \<Rightarrow> Dot" where
  "reparsedDot d =
     \<lparr>dot_x = reparsedNumber (dot_x d), dot_y = reparsedNumber (dot_y d),
      dot_r = reparsedNumber (dot_r d), dot_a = reparsedNumber (dot_a d)\<rparr>"

fun reparsedElement :: "Element \<Rightarrow> Element" where
  "reparsedElement (Stroke st) =
     Stroke \<lparr>se_id = se_id st,
             se_points = map reparsedPoint (se_points st),
             se_style = \<lparr>st_tool = st_tool (se_style st), st_brush = st_brush (se_style st),
                          st_color = st_color (se_style st),
                          st_size = reparsedNumber (st_size (se_style st))\<rparr>,
             se_dots = map_option (map reparsedDot) (se_dots st)\<rparr>"
| "reparsedElement (Shape sh) =
     Shape \<lparr>sh_id = sh_id sh, sh_shape = sh_shape sh,
            sh_x1 = reparsedNumber (sh_x1 sh), sh_y1 = reparsedNumber (sh_y1 sh),
            sh_x2 = reparsedNumber (sh_x2 sh), sh_y2 = reparsedNumber (sh_y2 sh),
            sh_color = sh_color sh, sh_size = reparsedNumber (sh_size sh)\<rparr>"

section \<open>The state of the application\<close>

text \<open>
  The component \<open>App\<close> keeps its state in React state variables and in refs. The record
  below has both, and with them the two parts of the environment that the source reads
  and writes: whether \<open>globalThis.structuredClone\<close> is a function, and the item of local
  storage under the key of the application. Requests to repaint are effects outside this
  state and are not part of the record.

  React compares the array \<open>elements\<close> by identity when it decides whether an effect runs
  again. Every call of \<open>setElements\<close> in the source passes an array that is not the current
  one, so the model numbers the arrays: \<open>elementsId\<close> is the number of the array that
  \<open>elements\<close> holds.
\<close>

datatype DragMode = DragNone | DragMove

record DragOrig =
  o_x1 :: jsnum
  o_y1 :: jsnum
  o_x2 :: jsnum
  o_y2 :: jsnum

record Drag =
  drag_mode :: DragMode
  drag_id :: string
  drag_start :: Point
  drag_orig :: DragOrig

text \<open>\<open>localStorage.getItem\<close>: no item, a text that \<open>JSON.parse\<close> rejects, or a JSON text.\<close>

datatype StoredItem = NoItem | Malformed | Item json

record App =
  tool :: Tool
  shapeTypeRef :: ShapeType
  brush :: Brush
  color :: string
  size' :: jsnum
  elements :: "Element list"
  elementsId :: nat
  history :: "Element list list"
  historyIndex :: int
  selectedId :: "string option"
  activeStrokeRef :: "StrokeElement option"
  activeShapeRef :: "ShapeElement option"
  dragRef :: Drag
  structuredCloneDefined :: bool
  storage :: StoredItem

text \<open>
  The values of the \<open>useState\<close> and \<open>useRef\<close> calls of the first render, in an engine that
  has \<open>structuredClone\<close> and with nothing stored.
\<close>

definition initialApp :: App where
  "initialApp =
     \<lparr>tool = Pen, shapeTypeRef = Rect, brush = Pencil, color = ''#111111'', size' = Number 6,
      elements = [], elementsId = 0, history = [], historyIndex = - 1, selectedId = None,
      activeStrokeRef = None, activeShapeRef = None,
      dragRef = \<lparr>drag_mode = DragNone, drag_id = [],
                 drag_start = \<lparr>pt_x = Number 0, pt_y = Number 0\<rparr>,
                 drag_orig = \<lparr>o_x1 = Number 0, o_y1 = Number 0, o_x2 = Number 0,
                               o_y2 = Number 0\<rparr>\<rparr>,
      structuredCloneDefined = True, storage = NoItem\<rparr>"

definition setElements :: "Element list \<Rightarrow> App \<Rightarrow> App" where
  "setElements v s = s\<lparr>elements := v, elementsId := Suc (elementsId s)\<rparr>"

section \<open>The history stack\<close>

text \<open>
  A function of the component reads the state variables of the render in which it was
  created: its closure. A state update is applied to the state as it is when the update is
  processed. The two differ when a function is called that was created in an earlier
  render. The functions below therefore take two records: \<open>c\<close>, the state of the render
  that created the function, and \<open>s\<close>, the state to update. Where the source calls a
  function from the current render (a button, or the keyboard handler, whose effect names
  every state variable it reads), only \<open>s\<close> is taken.
\<close>

text \<open>
  \<open>structuredClone\<close> returns a structurally equal copy that shares nothing with its
  argument; a value of HOL has no identity, so that copy is the value. Without
  \<open>structuredClone\<close> the copy is \<open>JSON.parse(JSON.stringify(scene))\<close>.
\<close>

definition deepCloneScene :: "bool \<Rightarrow> Element list \<Rightarrow> Element list" where
  "deepCloneScene sc scene = (if sc then scene else map reparsedElement scene)"

text \<open>\<open>xs.slice(0, n)\<close> for an integer \<open>n \<ge> 0\<close>.\<close>

definition slice0 :: "'a list \<Rightarrow> int \<Rightarrow> 'a list" where
  "slice0 xs n = take (nat n) xs"

text \<open>\<open>xs[i]\<close> for an integer \<open>i\<close>: \<open>None\<close> is \<open>undefined\<close>.\<close>

definition at_index :: "'a list \<Rightarrow> int \<Rightarrow> 'a option" where
  "at_index xs i = (if 0 \<le> i \<and> i < int (length xs) then Some (xs ! nat i) else None)"

text \<open>
  In \<open>pushHistory\<close> the update of \<open>history\<close> slices the history of the state (\<open>prev\<close>), the
  update of \<open>historyIndex\<close> slices the history of the closure, and both take the index of
  the closure. The write to local storage is taken to succeed.
\<close>

definition pushHistory :: "App \<Rightarrow> Element list \<Rightarrow> App \<Rightarrow> App" where
  "pushHistory c nextScene s =
     (let snapshot = deepCloneScene (structuredCloneDefined s) nextScene;
          base = (if historyIndex c \<ge> 0 then slice0 (history s) (historyIndex c + 1) else []);
          baseLen = (if historyIndex c \<ge> 0
                     then int (length (slice0 (history c) (historyIndex c + 1))) else 0)
      in s\<lparr>history := base @ [snapshot], historyIndex := baseLen,
           storage := Item (savedItem snapshot
                              (if historyIndex c \<ge> 0 then historyIndex c + 1 else 0))\<rparr>)"

text \<open>The effect that seeds the history after the first render; \<open>c\<close> is the first render.\<close>

definition seedHistory :: "App \<Rightarrow> App \<Rightarrow> App" where
  "seedHistory c s =
     (if historyIndex c = - 1 \<and> length (history c) = 0
      then s\<lparr>history := [[]], historyIndex := 0\<rparr>
      else s)"

definition canUndo :: "App \<Rightarrow> bool" where
  "canUndo s = (historyIndex s > 0)"

definition canRedo :: "App \<Rightarrow> bool" where
  "canRedo s = (historyIndex s \<ge> 0 \<and> historyIndex s < int (length (history s)) - 1)"

definition undo :: "App \<Rightarrow> App" where
  "undo s =
     (if \<not> canUndo s then s
      else
        (let nextIndex = historyIndex s - 1
         in case at_index (history s) nextIndex of
              None \<Rightarrow> s
            | Some snap \<Rightarrow> (setElements snap (s\<lparr>historyIndex := nextIndex\<rparr>))\<lparr>selectedId := None\<rparr>))"

definition redo :: "App \<Rightarrow> App" where
  "redo s =
     (if \<not> canRedo s then s
      else
        (let nextIndex = historyIndex s + 1
         in case at_index (history s) nextIndex of
              None \<Rightarrow> s
            | Some snap \<Rightarrow> (setElements snap (s\<lparr>historyIndex := nextIndex\<rparr>))\<lparr>selectedId := None\<rparr>))"

definition clearBoard :: "App \<Rightarrow> App" where
  "clearBoard s =
     (setElements [] (s\<lparr>selectedId := None\<rparr>))
       \<lparr>history := [[]], historyIndex := 0, storage := Item (savedItem [] 0)\<rparr>"

text \<open>
  Every commit path of the source ends with \<open>setElements(next); pushHistory(next)\<close>: the
  release of a shape, of a stroke, of a moved selection, and \<open>deleteSelected\<close>.
\<close>

definition commit :: "App \<Rightarrow> Element list \<Rightarrow> App \<Rightarrow> App" where
  "commit c next s = pushHistory c next (setElements next s)"

text \<open>A string is truthy unless it is empty; \<open>null\<close> is falsy.\<close>

definition truthy :: "string option \<Rightarrow> bool" where
  "truthy v = (case v of None \<Rightarrow> False | Some i \<Rightarrow> i \<noteq> [])"

definition deleteSelected :: "App \<Rightarrow> App" where
  "deleteSelected s =
     (if \<not> truthy (selectedId s) then s
      else
        (let next = filter (\<lambda>el. Some (element_id el) \<noteq> selectedId s) (elements s)
         in commit s next (s\<lparr>selectedId := None\<rparr>)))"

text \<open>
  The effect that loads the stored scene after the first render. \<open>parsedScene\<close> is the
  array \<open>parsed.scene\<close> when the item is a JSON text of an object with such a member; any
  other item is ignored. The source then takes the array as the document without a check;
  \<open>None\<close> stands for an array that is not a list of elements of the model.
\<close>

fun parsedScene :: "StoredItem \<Rightarrow> json list option" where
  "parsedScene (Item (JObject kvs)) = arrayOf (map_of kvs ''scene'')"
| "parsedScene item = None"

definition loadEffect :: "App \<Rightarrow> App option" where
  "loadEffect s =
     (case parsedScene (storage s) of
        None \<Rightarrow> Some s
      | Some js \<Rightarrow>
          (case readList readElement js of
             None \<Rightarrow> None
           | Some scene \<Rightarrow>
               Some ((setElements scene s)
                       \<lparr>history := [deepCloneScene (structuredCloneDefined s) scene],
                        historyIndex := 0, selectedId := None\<rparr>)))"

section \<open>The interaction reducer\<close>

record PointerEvent =
  clientX :: jsnum
  clientY :: jsnum

text \<open>The two fields of the bounding rectangle of the canvas that the handlers read.\<close>

record DOMRect =
  rect_left :: jsnum
  rect_top :: jsnum

definition getCanvasPoint :: "PointerEvent \<Rightarrow> DOMRect \<Rightarrow> Point" where
  "getCanvasPoint e rect = \<lparr>pt_x = clientX e - rect_left rect, pt_y = clientY e - rect_top rect\<rparr>"

text \<open>
  A handler that calls the airbrush sampler may not return, and it throws when it reads a
  field of \<open>undefined\<close>.
\<close>

datatype Failure = Diverges | TypeError

text \<open>\<open>elements.filter((el) => el.kind === "shape")\<close>\<close>

fun shapesOf :: "Element list \<Rightarrow> ShapeElement list" where
  "shapesOf [] = []"
| "shapesOf (Stroke st # els) = shapesOf els"
| "shapesOf (Shape sh # els) = sh # shapesOf els"

text \<open>The selection resolver of \<open>onPointerDown\<close>: the first hit of the reversed shapes.\<close>

definition findHit :: "Element list \<Rightarrow> Point \<Rightarrow> ShapeElement option" where
  "findHit els p = find (\<lambda>s. hitTestShape s p) (rev (shapesOf els))"

text \<open>
  The handlers are bound to an existing canvas only, so the canvas is a parameter: \<open>rect\<close>
  is its bounding rectangle at the time of the event. \<open>newId\<close> is the result of
  \<open>makeId()\<close>. A handler reads the state variables from its closure \<open>c\<close> and the refs from
  the state \<open>s\<close>, which it updates.
\<close>

definition onPointerDown ::
  "string \<Rightarrow> (nat \<Rightarrow> real) \<Rightarrow> DOMRect \<Rightarrow> PointerEvent \<Rightarrow> App \<Rightarrow> App \<Rightarrow> Failure + App" where
  "onPointerDown newId rnd rect e c s =
     (let p = getCanvasPoint e rect in
      if tool c = Select then
        (case findHit (elements c) p of
           Some hit \<Rightarrow>
             Inr (s\<lparr>selectedId := Some (sh_id hit),
                    dragRef := \<lparr>drag_mode = DragMove, drag_id = sh_id hit, drag_start = p,
                                drag_orig = \<lparr>o_x1 = sh_x1 hit, o_y1 = sh_y1 hit,
                                              o_x2 = sh_x2 hit, o_y2 = sh_y2 hit\<rparr>\<rparr>\<rparr>)
         | None \<Rightarrow>
             Inr (s\<lparr>selectedId := None, dragRef := (dragRef s)\<lparr>drag_mode := DragNone\<rparr>\<rparr>))
      else if tool c = ShapeTool then
        (let sh = \<lparr>sh_id = newId, sh_shape = shapeTypeRef s,
                    sh_x1 = pt_x p, sh_y1 = pt_y p, sh_x2 = pt_x p, sh_y2 = pt_y p,
                    sh_color = color c, sh_size = size' c\<rparr>
         in Inr (s\<lparr>selectedId := None, activeShapeRef := Some sh\<rparr>))
      else
        (let st = \<lparr>se_id = newId, se_points = [p],
                    se_style = \<lparr>st_tool = (if tool c = Eraser then StrokeEraser else StrokePen),
                                 st_brush = brush c, st_color = color c, st_size = size' c\<rparr>,
                    se_dots = (if tool c = Eraser \<or> brush c \<noteq> Airbrush then None else Some [])\<rparr>
         in if st_tool (se_style st) = StrokePen \<and> st_brush (se_style st) = Airbrush then
              (case addAirbrushDots rnd st p p of
                 None \<Rightarrow> Inl Diverges
               | Some st' \<Rightarrow> Inr (s\<lparr>activeStrokeRef := Some st'\<rparr>))
            else Inr (s\<lparr>activeStrokeRef := Some st\<rparr>)))"

text \<open>
  While a selection is dragged, \<open>onPointerMove\<close> only asks for a repaint of a preview:
  the state is unchanged.
\<close>

definition onPointerMove ::
  "(nat \<Rightarrow> real) \<Rightarrow> DOMRect \<Rightarrow> PointerEvent \<Rightarrow> App \<Rightarrow> App \<Rightarrow> Failure + App" where
  "onPointerMove rnd rect e c s =
     (let p = getCanvasPoint e rect in
      if tool c = Select \<and> drag_mode (dragRef s) = DragMove then Inr s
      else if tool c = ShapeTool \<and> activeShapeRef s \<noteq> None then
        Inr (s\<lparr>activeShapeRef :=
                 map_option (\<lambda>sh. sh\<lparr>sh_x2 := pt_x p, sh_y2 := pt_y p\<rparr>) (activeShapeRef s)\<rparr>)
      else if (tool c = Pen \<or> tool c = Eraser) \<and> activeStrokeRef s \<noteq> None then
        (case activeStrokeRef s of
           None \<Rightarrow> Inr s
         | Some st \<Rightarrow>
             (let last = at_index (se_points st) (int (length (se_points st)) - 1);
                  st1 = st\<lparr>se_points := se_points st @ [p]\<rparr>
              in if st_tool (se_style st1) = StrokePen \<and> st_brush (se_style st1) = Airbrush then
                   (case last of
                      None \<Rightarrow> Inl TypeError
                    | Some from \<Rightarrow>
                        (case addAirbrushDots rnd st1 from p of
                           None \<Rightarrow> Inl Diverges
                         | Some st2 \<Rightarrow> Inr (s\<lparr>activeStrokeRef := Some st2\<rparr>)))
                 else Inr (s\<lparr>activeStrokeRef := Some st1\<rparr>)))
      else Inr s)"

text \<open>The translation of the selected shape that \<open>onPointerUp\<close> commits.\<close>

definition moveSelected :: "string option \<Rightarrow> Drag \<Rightarrow> jsnum \<Rightarrow> jsnum \<Rightarrow> Element \<Rightarrow> Element" where
  "moveSelected sel d dx dy el =
     (case el of
        Stroke st \<Rightarrow> el
      | Shape sh \<Rightarrow>
          if Some (sh_id sh) \<noteq> sel then el
          else Shape (sh\<lparr>sh_x1 := o_x1 (drag_orig d) + dx, sh_y1 := o_y1 (drag_orig d) + dy,
                          sh_x2 := o_x2 (drag_orig d) + dx, sh_y2 := o_y2 (drag_orig d) + dy\<rparr>))"

definition onPointerUp :: "DOMRect \<Rightarrow> PointerEvent \<Rightarrow> App \<Rightarrow> App \<Rightarrow> App" where
  "onPointerUp rect e c s =
     (if tool c = Select \<and> drag_mode (dragRef s) = DragMove then
        (let s1 = s\<lparr>dragRef := (dragRef s)\<lparr>drag_mode := DragNone\<rparr>\<rparr>
         in if truthy (selectedId c) then
              (let p = getCanvasPoint e rect;
                   dx = pt_x p - pt_x (drag_start (dragRef s1));
                   dy = pt_y p - pt_y (drag_start (dragRef s1));
                   next = map (moveSelected (selectedId c) (dragRef s1) dx dy) (elements c)
               in commit c next s1)
            else s1)
      else if tool c = ShapeTool \<and> activeShapeRef s \<noteq> None then
        (case activeShapeRef s of
           None \<Rightarrow> s
         | Some sh \<Rightarrow> commit c (elements c @ [Shape sh]) (s\<lparr>activeShapeRef := None\<rparr>))
      else if (tool c = Pen \<or> tool c = Eraser) \<and> activeStrokeRef s \<noteq> None then
        (case activeStrokeRef s of
           None \<Rightarrow> s
         | Some st \<Rightarrow> commit c (elements c @ [Stroke st]) (s\<lparr>activeStrokeRef := None\<rparr>))
      else s)"

text \<open>\<open>bindPointerEvents\<close> binds \<open>pointercancel\<close> to \<open>onPointerUp\<close>.\<close>

definition onPointerCancel :: "DOMRect \<Rightarrow> PointerEvent \<Rightarrow> App \<Rightarrow> App \<Rightarrow> App" where
  "onPointerCancel rect e c s = onPointerUp rect e c s"

section \<open>Renders and the binding of the pointer handlers\<close>

text \<open>
  The pointer handlers are bound to the canvas by an effect whose dependencies are
  \<open>tool\<close>, \<open>brush\<close>, \<open>color\<close>, \<open>size\<close>, \<open>elements\<close> and \<open>selectedId\<close>. After a render in which
  none of them has changed, the canvas keeps the handlers of an earlier render, whose
  closure holds the \<open>history\<close> and \<open>historyIndex\<close> of that render. A session is the state
  together with the state of the render whose pointer handlers are bound.
\<close>

record Session =
  live :: App
  bound :: App

definition deps :: "App \<Rightarrow> Tool \<times> Brush \<times> string \<times> jsnum \<times> nat \<times> string option" where
  "deps s = (tool s, brush s, color s, size' s, elementsId s, selectedId s)"

text \<open>
  The bound handlers are those of the last render in which a dependency changed, so their
  closure and the state agree on the dependencies: the sessions that the application
  reaches satisfy \<open>agrees\<close>, which is proved below.
\<close>

definition agrees :: "Session \<Rightarrow> bool" where
  "agrees ss =
     (tool (bound ss) = tool (live ss) \<and> brush (bound ss) = brush (live ss)
      \<and> color (bound ss) = color (live ss) \<and> size' (bound ss) = size' (live ss)
      \<and> elements (bound ss) = elements (live ss)
      \<and> elementsId (bound ss) = elementsId (live ss)
      \<and> selectedId (bound ss) = selectedId (live ss))"

text \<open>The render after the state has become \<open>s'\<close>, and the effect that binds the handlers.\<close>

definition rerender :: "App \<Rightarrow> Session \<Rightarrow> Session" where
  "rerender s' ss = \<lparr>live = s', bound = (if deps s' = deps (bound ss) then bound ss else s')\<rparr>"

text \<open>
  The first render and its effects, in the order of the source: the load effect, the
  binding of the pointer handlers, the seed of the history. All of them are created in the
  first render. \<open>sc\<close> tells whether the engine has \<open>structuredClone\<close>, \<open>item\<close> is the stored
  item.
\<close>

definition mount :: "bool \<Rightarrow> StoredItem \<Rightarrow> Session option" where
  "mount sc item =
     (let first = initialApp\<lparr>structuredCloneDefined := sc, storage := item\<rparr>
      in case loadEffect first of
           None \<Rightarrow> None
         | Some s \<Rightarrow> Some (rerender (seedHistory first s) \<lparr>live = first, bound = first\<rparr>))"

text \<open>The events of a session. A pointer event runs the bound handler.\<close>

definition pointerDown ::
  "string \<Rightarrow> (nat \<Rightarrow> real) \<Rightarrow> DOMRect \<Rightarrow> PointerEvent \<Rightarrow> Session \<Rightarrow> Failure + Session" where
  "pointerDown newId rnd rect e ss =
     (case onPointerDown newId rnd rect e (bound ss) (live ss) of
        Inl f \<Rightarrow> Inl f
      | Inr s' \<Rightarrow> Inr (rerender s' ss))"

definition pointerMove ::
  "(nat \<Rightarrow> real) \<Rightarrow> DOMRect \<Rightarrow> PointerEvent \<Rightarrow> Session \<Rightarrow> Failure + Session" where
  "pointerMove rnd rect e ss =
     (case onPointerMove rnd rect e (bound ss) (live ss) of
        Inl f \<Rightarrow> Inl f
      | Inr s' \<Rightarrow> Inr (rerender s' ss))"

definition pointerUp :: "DOMRect \<Rightarrow> PointerEvent \<Rightarrow> Session \<Rightarrow> Session" where
  "pointerUp rect e ss = rerender (onPointerUp rect e (bound ss) (live ss)) ss"

definition pointerCancel :: "DOMRect \<Rightarrow> PointerEvent \<Rightarrow> Session \<Rightarrow> Session" where
  "pointerCancel rect e ss = rerender (onPointerCancel rect e (bound ss) (live ss)) ss"

text \<open>The buttons and the keyboard shortcuts call the functions of the current render.\<close>

definition doUndo :: "Session \<Rightarrow> Session" where
  "doUndo ss = rerender (undo (live ss)) ss"

definition doRedo :: "Session \<Rightarrow> Session" where
  "doRedo ss = rerender (redo (live ss)) ss"

definition doClearBoard :: "Session \<Rightarrow> Session" where
  "doClearBoard ss = rerender (clearBoard (live ss)) ss"

definition doDeleteSelected :: "Session \<Rightarrow> Session" where
  "doDeleteSelected ss = rerender (deleteSelected (live ss)) ss"

definition doSetTool :: "Tool \<Rightarrow> Session \<Rightarrow> Session" where
  "doSetTool t ss = rerender ((live ss)\<lparr>tool := t\<rparr>) ss"

section \<open>Sample inputs\<close>

text \<open>Concrete values at which the theorems below are evaluated.\<close>

definition zeroRandom :: "nat \<Rightarrow> real" where
  "zeroRandom k = 0"

definition originRect :: DOMRect where
  "originRect = \<lparr>rect_left = Number 0, rect_top = Number 0\<rparr>"

definition originEvent :: PointerEvent where
  "originEvent = \<lparr>clientX = Number 0, clientY = Number 0\<rparr>"

definition pencilStroke :: StrokeElement where
  "pencilStroke =
     \<lparr>se_id = ''s1'', se_points = [\<lparr>pt_x = Number 0, pt_y = Number 0\<rparr>],
      se_style = \<lparr>st_tool = StrokePen, st_brush = Pencil, st_color = ''#111111'',
                   st_size = Number 6\<rparr>,
      se_dots = None\<rparr>"

text \<open>
  A session in an engine with \<open>structuredClone\<close> and with nothing stored, after the first
  render and its effects: the history is seeded, the pointer handlers are those of the
  first render.
\<close>

definition freshSession :: Session where
  "freshSession = \<lparr>live = initialApp\<lparr>history := [[]], historyIndex := 0\<rparr>, bound = initialApp\<rparr>"

text \<open>The fresh session after a press at the origin with the pen.\<close>

definition drawingSession :: Session where
  "drawingSession =
     \<lparr>live = initialApp\<lparr>history := [[]], historyIndex := 0, activeStrokeRef := Some pencilStroke\<rparr>,
      bound = initialApp\<rparr>"

definition sampleRect :: ShapeElement where
  "sampleRect =
     \<lparr>sh_id = ''r1'', sh_shape = Rect, sh_x1 = Number 10, sh_y1 = Number 10,
      sh_x2 = Number 50, sh_y2 = Number 40, sh_color = ''#111111'', sh_size = Number 6\<rparr>"

text \<open>
  A line and a point at distance 8 of it in exact arithmetic, on the boundary of the test
  for the size 6.
\<close>

definition boundaryLine :: ShapeElement where
  "boundaryLine =
     \<lparr>sh_id = ''l1'', sh_shape = Line, sh_x1 = Number 0, sh_y1 = Number 0,
      sh_x2 = Number 9, sh_y2 = Number 12, sh_color = ''#111111'', sh_size = Number 6\<rparr>"

text \<open>
  An ellipse and a point on its enlarged outline in exact arithmetic: \<open>(12/13)\<^sup>2 + (5/13)\<^sup>2 = 1\<close>.
\<close>

definition boundaryEllipse :: ShapeElement where
  "boundaryEllipse =
     \<lparr>sh_id = ''e1'', sh_shape = Ellipse, sh_x1 = Number 0, sh_y1 = Number 0,
      sh_x2 = Number 14, sh_y2 = Number 14, sh_color = ''#111111'', sh_size = Number 6\<rparr>"

text \<open>A line of length 0, and a line whose second anchor is infinite.\<close>

definition pointLine :: ShapeElement where
  "pointLine =
     \<lparr>sh_id = ''l2'', sh_shape = Line, sh_x1 = Number 0, sh_y1 = Number 0,
      sh_x2 = Number 0, sh_y2 = Number 0, sh_color = ''#111111'', sh_size = Number 6\<rparr>"

definition infiniteLine :: ShapeElement where
  "infiniteLine =
     \<lparr>sh_id = ''l3'', sh_shape = Line, sh_x1 = Number 0, sh_y1 = Number 0,
      sh_x2 = Infinity, sh_y2 = Number 0, sh_color = ''#111111'', sh_size = Number 6\<rparr>"

definition smallPentagon :: ShapeElement where
  "smallPentagon =
     \<lparr>sh_id = ''p1'', sh_shape = Pentagon, sh_x1 = Number 0, sh_y1 = Number 0,
      sh_x2 = Number 4, sh_y2 = Number 4, sh_color = ''#111111'', sh_size = Number 6\<rparr>"

definition thinAirbrush :: StrokeElement where
  "thinAirbrush =
     \<lparr>se_id = ''a1'', se_points = [\<lparr>pt_x = Number 0, pt_y = Number 0\<rparr>],
      se_style = \<lparr>st_tool = StrokePen, st_brush = Airbrush, st_color = ''#111111'',
                   st_size = Number 1\<rparr>,
      se_dots = Some []\<rparr>"

definition airbrushStroke :: StrokeElement where
  "airbrushStroke =
     \<lparr>se_id = ''a2'', se_points = [\<lparr>pt_x = Number 0, pt_y = Number 0\<rparr>],
      se_style = \<lparr>st_tool = StrokePen, st_brush = Airbrush, st_color = ''#111111'',
                   st_size = Number 3\<rparr>,
      se_dots = Some []\<rparr>"

text \<open>A session in which a stroke of the airbrush is drawn.\<close>

definition sprayingSession :: Session where
  "sprayingSession =
     \<lparr>live = initialApp\<lparr>brush := Airbrush, size' := Number 3, history := [[]], historyIndex := 0,
                         activeStrokeRef := Some airbrushStroke\<rparr>,
      bound = initialApp\<lparr>brush := Airbrush, size' := Number 3, history := [[]],
                          historyIndex := 0\<rparr>\<rparr>"

text \<open>A session with three elements and the select tool.\<close>

definition selectingSession :: Session where
  "selectingSession =
     \<lparr>live = initialApp\<lparr>tool := Select,
                         elements := [Shape sampleRect, Shape boundaryLine, Stroke pencilStroke],
                         elementsId := 3,
                         history := [[], [Shape sampleRect], [Shape sampleRect, Shape boundaryLine],
                                     [Shape sampleRect, Shape boundaryLine, Stroke pencilStroke]],
                         historyIndex := 3\<rparr>,
      bound = initialApp\<lparr>tool := Select,
                          elements := [Shape sampleRect, Shape boundaryLine, Stroke pencilStroke],
                          elementsId := 3,
                          history := [[], [Shape sampleRect], [Shape sampleRect, Shape boundaryLine],
                                      [Shape sampleRect, Shape boundaryLine, Stroke pencilStroke]],
                          historyIndex := 3\<rparr>\<rparr>"

text \<open>
  A session in which the shape tool was chosen, which binds the handlers again, and a
  rectangle is previewed.
\<close>

definition previewSession :: Session where
  "previewSession =
     \<lparr>live = initialApp\<lparr>tool := ShapeTool, history := [[]], historyIndex := 0,
                         activeShapeRef := Some sampleRect\<rparr>,
      bound = initialApp\<lparr>tool := ShapeTool, history := [[]], historyIndex := 0\<rparr>\<rparr>"

section \<open>Arithmetic of finite numbers\<close>

declare uminus_jsnum_def [simp] plus_jsnum_def [simp] minus_jsnum_def [simp]
  times_jsnum_def [simp] divide_jsnum_def [simp] less_jsnum_def [simp]
  less_eq_jsnum_def [simp] Math_sqrt_def [simp] Math_floor_def [simp]
  Math_cos_def [simp] Math_sin_def [simp]

lemma minus_Number: "Number a - Number b = Number (a - b)"
  by simp

lemma Math_max_Number [simp]: "Math_max (Number a) (Number b) = Number (max a b)"
  by (simp add: Math_max_def max_def)

lemma Math_min_Number [simp]: "Math_min (Number a) (Number b) = Number (min a b)"
  by (simp add: Math_min_def min_def)

lemma Math_min_commute: "Math_min a b = Math_min b a"
  by (cases a; cases b) (auto simp: Math_min_def)

lemma Math_max_commute: "Math_max a b = Math_max b a"
  by (cases a; cases b) (auto simp: Math_max_def)

lemma isFinite_Number: "isFinite a \<Longrightarrow> \<exists>r. a = Number r"
  by (cases a) auto

section \<open>Sessions: the closure of the bound handlers\<close>

lemma mount_fresh: "mount True NoItem = Some freshSession"
  by (simp add: mount_def loadEffect_def seedHistory_def rerender_def deps_def initialApp_def
      freshSession_def Let_def)

text \<open>
  In a fresh session the state has the seeded history, and the bound handlers are those of
  the first render, for which the history is empty and the index is \<open>-1\<close>.
\<close>

lemma fresh_closure:
  "history (live freshSession) = [[]]" "historyIndex (live freshSession) = 0"
  "history (bound freshSession) = []" "historyIndex (bound freshSession) = - 1"
  by (simp_all add: freshSession_def initialApp_def)

lemma rerender_agrees:
  assumes "agrees ss"
    and "elementsId s' = elementsId (live ss) \<Longrightarrow> elements s' = elements (live ss)"
  shows "agrees (rerender s' ss)"
  using assms by (auto simp: agrees_def rerender_def deps_def)

lemma elementsId_commit: "elementsId (commit c next s) = Suc (elementsId s)"
  by (simp add: commit_def pushHistory_def setElements_def Let_def)

lemma onPointerDown_elements:
  assumes "onPointerDown newId rnd rect e c s = Inr s'"
  shows "elements s' = elements s" "elementsId s' = elementsId s"
  using assms
  by (auto simp: onPointerDown_def Let_def split: if_splits option.splits)

lemma onPointerMove_elements:
  assumes "onPointerMove rnd rect e c s = Inr s'"
  shows "elements s' = elements s" "elementsId s' = elementsId s"
  using assms
  by (auto simp: onPointerMove_def Let_def split: if_splits option.splits)

lemma onPointerUp_elements:
  "elementsId (onPointerUp rect e c s) = elementsId s
   \<Longrightarrow> elements (onPointerUp rect e c s) = elements s"
  by (auto simp: onPointerUp_def elementsId_commit Let_def split: if_splits option.splits)

lemma undo_elements: "elementsId (undo s) = elementsId s \<Longrightarrow> elements (undo s) = elements s"
  by (auto simp: undo_def setElements_def Let_def split: if_splits option.splits)

lemma redo_elements: "elementsId (redo s) = elementsId s \<Longrightarrow> elements (redo s) = elements s"
  by (auto simp: redo_def setElements_def Let_def split: if_splits option.splits)

lemma deleteSelected_elements:
  "elementsId (deleteSelected s) = elementsId s
   \<Longrightarrow> elements (deleteSelected s) = elements s"
  by (auto simp: deleteSelected_def elementsId_commit Let_def split: if_splits)

text \<open>
  The closure of the bound handlers agrees with the state on the dependencies of the
  binding effect, in every session that the application reaches.
\<close>

lemma agrees_invariant:
  "mount sc item = Some ss0 \<Longrightarrow> agrees ss0"
  "agrees ss \<Longrightarrow> pointerDown newId rnd rect e ss = Inr ss' \<Longrightarrow> agrees ss'"
  "agrees ss \<Longrightarrow> pointerMove rnd rect e ss = Inr ss' \<Longrightarrow> agrees ss'"
  "agrees ss \<Longrightarrow> agrees (pointerUp rect e ss)"
  "agrees ss \<Longrightarrow> agrees (pointerCancel rect e ss)"
  "agrees ss \<Longrightarrow> agrees (doUndo ss)"
  "agrees ss \<Longrightarrow> agrees (doRedo ss)"
  "agrees ss \<Longrightarrow> agrees (doClearBoard ss)"
  "agrees ss \<Longrightarrow> agrees (doDeleteSelected ss)"
  "agrees ss \<Longrightarrow> agrees (doSetTool t ss)"
proof -
  show "mount sc item = Some ss0 \<Longrightarrow> agrees ss0"
    by (auto simp: mount_def loadEffect_def seedHistory_def Let_def setElements_def
        agrees_def rerender_def deps_def split: option.splits if_splits)
  show "agrees ss \<Longrightarrow> pointerDown newId rnd rect e ss = Inr ss' \<Longrightarrow> agrees ss'"
    by (auto simp: pointerDown_def onPointerDown_elements intro!: rerender_agrees
        split: sum.splits)
  show "agrees ss \<Longrightarrow> pointerMove rnd rect e ss = Inr ss' \<Longrightarrow> agrees ss'"
    by (auto simp: pointerMove_def onPointerMove_elements intro!: rerender_agrees
        split: sum.splits)
  show "agrees ss \<Longrightarrow> agrees (pointerUp rect e ss)"
    unfolding pointerUp_def by (rule rerender_agrees) (simp_all add: onPointerUp_elements)
  show "agrees ss \<Longrightarrow> agrees (pointerCancel rect e ss)"
    unfolding pointerCancel_def onPointerCancel_def
    by (rule rerender_agrees) (simp_all add: onPointerUp_elements)
  show "agrees ss \<Longrightarrow> agrees (doUndo ss)"
    unfolding doUndo_def by (rule rerender_agrees) (simp_all add: undo_elements)
  show "agrees ss \<Longrightarrow> agrees (doRedo ss)"
    unfolding doRedo_def by (rule rerender_agrees) (simp_all add: redo_elements)
  show "agrees ss \<Longrightarrow> agrees (doClearBoard ss)"
    unfolding doClearBoard_def
    by (rule rerender_agrees) (simp_all add: clearBoard_def setElements_def)
  show "agrees ss \<Longrightarrow> agrees (doDeleteSelected ss)"
    unfolding doDeleteSelected_def
    by (rule rerender_agrees) (simp_all add: deleteSelected_elements)
  show "agrees ss \<Longrightarrow> agrees (doSetTool t ss)"
    unfolding doSetTool_def by (rule rerender_agrees) simp_all
qed

section \<open>The history stack: commits, undo and redo\<close>

lemma history_pushHistory:
  "history (pushHistory c d s)
   = (if 0 \<le> historyIndex c then take (nat (historyIndex c + 1)) (history s) else [])
     @ [deepCloneScene (structuredCloneDefined s) d]"
  by (simp add: pushHistory_def slice0_def Let_def)

lemma historyIndex_pushHistory:
  "historyIndex (pushHistory c d s)
   = (if 0 \<le> historyIndex c
      then int (length (take (nat (historyIndex c + 1)) (history c))) else 0)"
  by (simp add: pushHistory_def slice0_def Let_def)

lemma elements_pushHistory: "elements (pushHistory c d s) = elements s"
  by (simp add: pushHistory_def Let_def)

text \<open>
  With the closure of the first render, whose index is \<open>-1\<close>, a commit keeps no snapshot
  of the state: the history becomes the new snapshot alone.
\<close>

lemma first_render_commit:
  assumes "historyIndex c = - 1"
  shows "history (commit c d s) = [deepCloneScene (structuredCloneDefined s) d]"
    and "historyIndex (commit c d s) = 0"
    and "elements (commit c d s) = d"
  using assms
  by (simp_all add: commit_def history_pushHistory historyIndex_pushHistory
      elements_pushHistory setElements_def)

text \<open>
  With a closure that has the history and the index of the state, a commit at the last
  snapshot appends, and nothing is truncated.
\<close>

lemma commit_at_end:
  assumes "history c = history s" "historyIndex c = historyIndex s"
    and "historyIndex s = int (length (history s)) - 1" "history s \<noteq> []"
  shows "history (commit c d s) = history s @ [deepCloneScene (structuredCloneDefined s) d]"
    and "historyIndex (commit c d s) = int (length (history s))"
    and "elements (commit c d s) = d"
  using assms
  by (simp_all add: commit_def history_pushHistory historyIndex_pushHistory
      elements_pushHistory setElements_def)

lemma commit_flag: "structuredCloneDefined (commit c d s) = structuredCloneDefined s"
  by (simp add: commit_def pushHistory_def setElements_def Let_def)

lemma fold_commit:
  assumes "historyIndex s = int (length (history s)) - 1" "history s \<noteq> []"
    and "structuredCloneDefined s"
  shows "history (fold (\<lambda>d s. commit s d s) docs s) = history s @ docs
       \<and> historyIndex (fold (\<lambda>d s. commit s d s) docs s)
           = int (length (history s) + length docs) - 1
       \<and> elements (fold (\<lambda>d s. commit s d s) docs s)
           = (if docs = [] then elements s else last docs)"
  using assms
proof (induction docs arbitrary: s)
  case Nil
  then show ?case by simp
next
  case (Cons d docs)
  have c: "history (commit s d s) = history s @ [d]"
    "historyIndex (commit s d s) = int (length (history s))"
    "elements (commit s d s) = d"
    using commit_at_end[OF refl refl Cons.prems(1,2), of d] Cons.prems(3)
    by (simp_all add: deepCloneScene_def)
  have a: "historyIndex (commit s d s) = int (length (history (commit s d s))) - 1"
    and b: "history (commit s d s) \<noteq> []"
    and f: "structuredCloneDefined (commit s d s)"
    using c Cons.prems(3) by (simp_all add: commit_flag)
  show ?case
    using Cons.IH[OF a b f] c by simp
qed

lemma undo_step:
  assumes "historyIndex s = int (Suc i)" "Suc i < length (history s)"
  shows "undo s = (setElements (history s ! i) (s\<lparr>historyIndex := int i\<rparr>))\<lparr>selectedId := None\<rparr>"
  using assms by (simp add: undo_def canUndo_def at_index_def Let_def)

lemma undo_iter:
  assumes "historyIndex s = int i" "i < length (history s)" "k \<le> i"
  shows "history ((undo ^^ k) s) = history s
       \<and> historyIndex ((undo ^^ k) s) = int (i - k)
       \<and> elements ((undo ^^ k) s) = (if k = 0 then elements s else history s ! (i - k))"
  using assms(3)
proof (induction k)
  case 0
  then show ?case using assms by simp
next
  case (Suc k)
  then have ih: "history ((undo ^^ k) s) = history s"
    "historyIndex ((undo ^^ k) s) = int (i - k)"
    by simp_all
  from Suc.prems obtain j where j: "i - k = Suc j"
    by (cases "i - k") auto
  have lt: "Suc j < length (history ((undo ^^ k) s))"
    using ih j assms(2) by simp
  have "undo ((undo ^^ k) s) =
          (setElements (history s ! j) (((undo ^^ k) s)\<lparr>historyIndex := int j\<rparr>))
            \<lparr>selectedId := None\<rparr>"
    using undo_step[of "(undo ^^ k) s" j] ih j lt by simp
  moreover have "j = i - Suc k"
    using j by simp
  ultimately show ?case
    using ih by (simp add: setElements_def)
qed

lemma redo_step:
  assumes "historyIndex s = int i" "Suc i < length (history s)"
  shows "redo s = (setElements (history s ! Suc i) (s\<lparr>historyIndex := int (Suc i)\<rparr>))
                    \<lparr>selectedId := None\<rparr>"
  using assms
  by (simp add: redo_def canRedo_def at_index_def Let_def nat_add_distrib add.commute)

lemma redo_iter:
  assumes "historyIndex s = int i" "i + k < length (history s)"
  shows "history ((redo ^^ k) s) = history s
       \<and> historyIndex ((redo ^^ k) s) = int (i + k)
       \<and> elements ((redo ^^ k) s) = (if k = 0 then elements s else history s ! (i + k))"
  using assms(2)
proof (induction k)
  case 0
  then show ?case using assms by simp
next
  case (Suc k)
  then have ih: "history ((redo ^^ k) s) = history s"
    "historyIndex ((redo ^^ k) s) = int (i + k)"
    by simp_all
  have lt: "Suc (i + k) < length (history ((redo ^^ k) s))"
    using ih Suc.prems by simp
  show ?case
    using redo_step[of "(redo ^^ k) s" "i + k"] ih lt by (simp add: setElements_def)
qed

text \<open>
  Where every commit is made by a handler of the render of its state, in an engine with
  \<open>structuredClone\<close>, the history is a faithful stack: from the single empty snapshot at
  index 0, after the commits of \<open>docs\<close>, as many calls of \<open>undo\<close> bring the empty document
  back and as many calls of \<open>redo\<close> restore the last one. Clear board leaves such a state
  with handlers of its render, and so does every change of the tool after the first
  render.
\<close>

lemma history_round_trip_rebound:
  assumes s0: "history s0 = [[]]" "historyIndex s0 = 0" "elements s0 = []"
    "structuredCloneDefined s0"
  shows "elements (fold (\<lambda>d s. commit s d s) docs s0) = last ([] # docs)
     \<and> elements ((undo ^^ length docs) (fold (\<lambda>d s. commit s d s) docs s0)) = []
     \<and> elements ((redo ^^ length docs)
          ((undo ^^ length docs) (fold (\<lambda>d s. commit s d s) docs s0)))
         = elements (fold (\<lambda>d s. commit s d s) docs s0)"
proof -
  define N where "N = length docs"
  define sN where "sN = fold (\<lambda>d s. commit s d s) docs s0"
  have f: "history sN = [] # docs" "historyIndex sN = int N"
    "elements sN = (if docs = [] then [] else last docs)"
    using fold_commit[of s0 docs] s0 by (simp_all add: sN_def N_def)
  have u: "history ((undo ^^ N) sN) = [] # docs" "historyIndex ((undo ^^ N) sN) = int 0"
    "elements ((undo ^^ N) sN) = (if N = 0 then elements sN else ([] # docs) ! 0)"
    using undo_iter[of sN N N] f by (simp_all add: N_def)
  have e0: "elements ((undo ^^ N) sN) = []"
    using u(3) f(3) by (auto simp: N_def)
  have r: "elements ((redo ^^ N) ((undo ^^ N) sN)) =
             (if N = 0 then elements ((undo ^^ N) sN) else ([] # docs) ! N)"
    using redo_iter[of "(undo ^^ N) sN" 0 N] u by (simp add: N_def)
  have "N \<noteq> 0 \<Longrightarrow> ([] # docs) ! N = last docs"
    by (cases docs rule: rev_cases) (simp_all add: N_def nth_append)
  then have "elements sN = last ([] # docs) \<and> elements ((undo ^^ N) sN) = []
      \<and> elements ((redo ^^ N) ((undo ^^ N) sN)) = elements sN"
    using f(3) e0 r by (auto simp: N_def)
  then show ?thesis
    by (simp add: N_def sN_def)
qed

lemma drawing_reached:
  "pointerDown ''s1'' zeroRandom originRect originEvent freshSession = Inr drawingSession"
  by (simp add: pointerDown_def onPointerDown_def getCanvasPoint_def originRect_def
      originEvent_def freshSession_def drawingSession_def initialApp_def pencilStroke_def
      rerender_def deps_def Let_def)

text \<open>
  C1 (history round trip) does not hold for the program. In a fresh session (nothing
  stored, first render, history seeded with the empty snapshot at index 0) a press and a
  release with the pen commit one stroke. The handler that commits is the one of the
  first render, whose index is \<open>-1\<close>: the history becomes the snapshot with the stroke
  alone, at index 0, \<open>canUndo\<close> is false, and \<open>undo\<close> leaves the stroke in the document,
  where the claim has the empty document after one \<open>undo\<close>.
\<close>

theorem first_stroke_not_undoable:
  "mount True NoItem = Some freshSession
   \<and> history (live freshSession) = [[]] \<and> historyIndex (live freshSession) = 0
   \<and> pointerDown ''s1'' zeroRandom originRect originEvent freshSession = Inr drawingSession
   \<and> elements (live (pointerUp originRect originEvent drawingSession)) = [Stroke pencilStroke]
   \<and> history (live (pointerUp originRect originEvent drawingSession)) = [[Stroke pencilStroke]]
   \<and> historyIndex (live (pointerUp originRect originEvent drawingSession)) = 0
   \<and> \<not> canUndo (live (pointerUp originRect originEvent drawingSession))
   \<and> elements (live (doUndo (pointerUp originRect originEvent drawingSession)))
       = [Stroke pencilStroke]"
proof -
  have u: "live (pointerUp originRect originEvent drawingSession)
           = commit initialApp [Stroke pencilStroke]
               ((live drawingSession)\<lparr>activeStrokeRef := None\<rparr>)"
    by (simp add: pointerUp_def rerender_def onPointerUp_def drawingSession_def initialApp_def)
  have i: "historyIndex initialApp = - 1"
    by (simp add: initialApp_def)
  have sc: "structuredCloneDefined ((live drawingSession)\<lparr>activeStrokeRef := None\<rparr>)"
    by (simp add: drawingSession_def initialApp_def)
  have h: "history (live (pointerUp originRect originEvent drawingSession))
           = [[Stroke pencilStroke]]"
    "historyIndex (live (pointerUp originRect originEvent drawingSession)) = 0"
    "elements (live (pointerUp originRect originEvent drawingSession)) = [Stroke pencilStroke]"
    unfolding u using first_render_commit[OF i] sc by (simp_all add: deepCloneScene_def)
  have c: "\<not> canUndo (live (pointerUp originRect originEvent drawingSession))"
    using h(2) by (simp add: canUndo_def)
  have "elements (live (doUndo (pointerUp originRect originEvent drawingSession)))
        = [Stroke pencilStroke]"
    using c h(3) by (simp add: doUndo_def rerender_def undo_def)
  then show ?thesis
    using mount_fresh fresh_closure(1,2) drawing_reached h c by simp
qed

text \<open>
  C5 (redo branch and history flags) does not hold for the program. \<open>pushHistory\<close> takes
  the cursor from the closure of the handler that calls it. For the handlers of the first
  render, which stay bound after the history is seeded, the cursor is \<open>-1\<close> while the
  cursor of the state is 0: the commit keeps no snapshot, so it drops the snapshot at the
  cursor and not only those after it. The claim has the history \<open>[[], [stroke]]\<close> and
  \<open>canUndo\<close> after this commit.
\<close>

theorem stale_commit_drops_snapshot:
  "history (live freshSession) = [[]]
   \<and> historyIndex (live freshSession) = 0
   \<and> historyIndex (bound freshSession) = - 1
   \<and> history (pushHistory (bound freshSession) [Stroke pencilStroke] (live freshSession))
       = [[Stroke pencilStroke]]
   \<and> historyIndex (pushHistory (bound freshSession) [Stroke pencilStroke] (live freshSession))
       = 0
   \<and> \<not> canUndo (pushHistory (bound freshSession) [Stroke pencilStroke] (live freshSession))"
  by (simp add: history_pushHistory historyIndex_pushHistory canUndo_def deepCloneScene_def
      freshSession_def initialApp_def)

text \<open>What C5 states holds for a handler of the render of its state.\<close>

lemma redo_branch_discard_rebound:
  assumes "0 \<le> historyIndex s"
  shows "history (pushHistory s doc s)
           = take (nat (historyIndex s + 1)) (history s)
             @ [deepCloneScene (structuredCloneDefined s) doc]"
    and "historyIndex s < int (length (history s)) \<Longrightarrow>
           historyIndex (pushHistory s doc s) = int (length (history (pushHistory s doc s))) - 1"
    and "canUndo s = (historyIndex s > 0)"
    and "canRedo s = (historyIndex s < int (length (history s)) - 1)"
    and "historyIndex s < int (length (history s)) \<Longrightarrow> \<not> canRedo (pushHistory s doc s)"
  using assms
  by (auto simp: history_pushHistory historyIndex_pushHistory canUndo_def canRedo_def)

lemma onPointerUp_stroke:
  assumes "tool c = Pen \<or> tool c = Eraser" "activeStrokeRef s = Some st"
  shows "onPointerUp rect e c s
         = commit c (elements c @ [Stroke st]) (s\<lparr>activeStrokeRef := None\<rparr>)"
  using assms by (auto simp: onPointerUp_def)

lemma onPointerUp_shape:
  assumes "tool c = ShapeTool" "activeShapeRef s = Some sh"
  shows "onPointerUp rect e c s
         = commit c (elements c @ [Shape sh]) (s\<lparr>activeShapeRef := None\<rparr>)"
  using assms by (simp add: onPointerUp_def)

lemma commit_frame_fields:
  "elements (commit c d s) = d"
  "activeStrokeRef (commit c d s) = activeStrokeRef s"
  "activeShapeRef (commit c d s) = activeShapeRef s"
  "last (history (commit c d s)) = deepCloneScene (structuredCloneDefined s) d"
  by (simp_all add: commit_def pushHistory_def setElements_def Let_def)

text \<open>
  C10 (commit frame). In a session, a release or a cancel while a stroke is drawn with
  the pen or the eraser, or while a shape is previewed with the shape tool, leaves the
  document of the state with that element appended at its end and nothing else changed,
  clears the slot of the element and leaves the other slot as it is, and the last
  snapshot of the history is the copy of the new document. A cancel is a release.
\<close>

theorem commit_frame:
  "(agrees ss \<and> (tool (live ss) = Pen \<or> tool (live ss) = Eraser)
      \<and> activeStrokeRef (live ss) = Some st \<longrightarrow>
      elements (live (pointerUp rect e ss)) = elements (live ss) @ [Stroke st]
      \<and> activeStrokeRef (live (pointerUp rect e ss)) = None
      \<and> activeShapeRef (live (pointerUp rect e ss)) = activeShapeRef (live ss)
      \<and> last (history (live (pointerUp rect e ss)))
          = deepCloneScene (structuredCloneDefined (live ss)) (elements (live ss) @ [Stroke st]))
   \<and> (agrees ss \<and> tool (live ss) = ShapeTool \<and> activeShapeRef (live ss) = Some sh \<longrightarrow>
      elements (live (pointerUp rect e ss)) = elements (live ss) @ [Shape sh]
      \<and> activeShapeRef (live (pointerUp rect e ss)) = None
      \<and> activeStrokeRef (live (pointerUp rect e ss)) = activeStrokeRef (live ss)
      \<and> last (history (live (pointerUp rect e ss)))
          = deepCloneScene (structuredCloneDefined (live ss)) (elements (live ss) @ [Shape sh]))
   \<and> pointerCancel rect e ss = pointerUp rect e ss"
proof (intro conjI impI)
  assume a: "agrees ss \<and> (tool (live ss) = Pen \<or> tool (live ss) = Eraser)
      \<and> activeStrokeRef (live ss) = Some st"
  then have t: "tool (bound ss) = Pen \<or> tool (bound ss) = Eraser"
    and el: "elements (bound ss) = elements (live ss)"
    and st: "activeStrokeRef (live ss) = Some st"
    by (simp_all add: agrees_def)
  have u: "live (pointerUp rect e ss)
           = commit (bound ss) (elements (live ss) @ [Stroke st])
               ((live ss)\<lparr>activeStrokeRef := None\<rparr>)"
    using onPointerUp_stroke[OF t st] el by (simp add: pointerUp_def rerender_def)
  show "elements (live (pointerUp rect e ss)) = elements (live ss) @ [Stroke st]"
    "activeStrokeRef (live (pointerUp rect e ss)) = None"
    "activeShapeRef (live (pointerUp rect e ss)) = activeShapeRef (live ss)"
    "last (history (live (pointerUp rect e ss)))
          = deepCloneScene (structuredCloneDefined (live ss)) (elements (live ss) @ [Stroke st])"
    unfolding u by (simp_all add: commit_frame_fields)
next
  assume a: "agrees ss \<and> tool (live ss) = ShapeTool \<and> activeShapeRef (live ss) = Some sh"
  then have t: "tool (bound ss) = ShapeTool"
    and el: "elements (bound ss) = elements (live ss)"
    and sh: "activeShapeRef (live ss) = Some sh"
    by (simp_all add: agrees_def)
  have u: "live (pointerUp rect e ss)
           = commit (bound ss) (elements (live ss) @ [Shape sh])
               ((live ss)\<lparr>activeShapeRef := None\<rparr>)"
    using onPointerUp_shape[OF t sh] el by (simp add: pointerUp_def rerender_def)
  show "elements (live (pointerUp rect e ss)) = elements (live ss) @ [Shape sh]"
    "activeShapeRef (live (pointerUp rect e ss)) = None"
    "activeStrokeRef (live (pointerUp rect e ss)) = activeStrokeRef (live ss)"
    "last (history (live (pointerUp rect e ss)))
          = deepCloneScene (structuredCloneDefined (live ss)) (elements (live ss) @ [Shape sh])"
    unfolding u by (simp_all add: commit_frame_fields)
next
  show "pointerCancel rect e ss = pointerUp rect e ss"
    by (simp add: pointerCancel_def pointerUp_def onPointerCancel_def)
qed

theorem commit_frame_witness:
  "agrees drawingSession \<and> tool (live drawingSession) = Pen
   \<and> activeStrokeRef (live drawingSession) = Some pencilStroke
   \<and> elements (live drawingSession) = []
   \<and> elements (live (pointerUp originRect originEvent drawingSession)) = [Stroke pencilStroke]
   \<and> activeStrokeRef (live (pointerUp originRect originEvent drawingSession)) = None
   \<and> last (history (live (pointerUp originRect originEvent drawingSession)))
       = [Stroke pencilStroke]
   \<and> agrees previewSession \<and> tool (live previewSession) = ShapeTool
   \<and> activeShapeRef (live previewSession) = Some sampleRect
   \<and> elements (live previewSession) = []
   \<and> elements (live (pointerCancel originRect originEvent previewSession)) = [Shape sampleRect]
   \<and> activeShapeRef (live (pointerCancel originRect originEvent previewSession)) = None
   \<and> last (history (live (pointerCancel originRect originEvent previewSession)))
       = [Shape sampleRect]"
proof -
  note a = commit_frame[of drawingSession pencilStroke originRect originEvent sampleRect]
  note b = commit_frame[of previewSession pencilStroke originRect originEvent sampleRect]
  have d: "agrees drawingSession" "tool (live drawingSession) = Pen"
    "activeStrokeRef (live drawingSession) = Some pencilStroke"
    "elements (live drawingSession) = []" "structuredCloneDefined (live drawingSession)"
    by (simp_all add: agrees_def drawingSession_def initialApp_def)
  have p: "agrees previewSession" "tool (live previewSession) = ShapeTool"
    "activeShapeRef (live previewSession) = Some sampleRect"
    "elements (live previewSession) = []" "structuredCloneDefined (live previewSession)"
    by (simp_all add: agrees_def previewSession_def initialApp_def)
  have x: "elements (live (pointerUp originRect originEvent drawingSession))
             = [Stroke pencilStroke]"
    "activeStrokeRef (live (pointerUp originRect originEvent drawingSession)) = None"
    "last (history (live (pointerUp originRect originEvent drawingSession)))
       = [Stroke pencilStroke]"
    using a d by (simp_all add: deepCloneScene_def)
  have y: "elements (live (pointerCancel originRect originEvent previewSession))
             = [Shape sampleRect]"
    "activeShapeRef (live (pointerCancel originRect originEvent previewSession)) = None"
    "last (history (live (pointerCancel originRect originEvent previewSession)))
       = [Shape sampleRect]"
    using b p by (simp_all add: deepCloneScene_def)
  show ?thesis
    using d(1-4) p(1-4) x y by simp
qed

section \<open>Direction invariance of the normalized box\<close>

lemma extent_not_negative: "\<not> Math_max a b - Math_min a b < Number 0"
  by (cases a; cases b) (auto simp: Math_max_def Math_min_def)

lemma normalizeRect_commute: "normalizeRect x1 y1 x2 y2 = normalizeRect x2 y2 x1 y1"
  by (simp add: normalizeRect_def Math_min_commute[of x1 x2] Math_min_commute[of y1 y2]
      Math_max_commute[of x1 x2] Math_max_commute[of y1 y2])

lemma normalizeRect_Number:
  "normalizeRect (Number a) (Number b) (Number c) (Number d) =
     \<lparr>r_left = Number (min a c), r_top = Number (min b d), r_right = Number (max a c),
      r_bottom = Number (max b d), r_w = Number (max a c - min a c),
      r_h = Number (max b d - min b d)\<rparr>"
  by (simp add: normalizeRect_def)

lemma drawShape_reverse:
  assumes "sh_shape el \<noteq> Line"
  shows "drawShape (el\<lparr>sh_x1 := sh_x2 el, sh_y1 := sh_y2 el, sh_x2 := sh_x1 el,
                       sh_y2 := sh_y1 el\<rparr>)
         = drawShape el"
  using assms
  by (cases "sh_shape el")
     (simp_all add: drawShape_def
        normalizeRect_commute[of "sh_x2 el" "sh_y2 el" "sh_x1 el" "sh_y1 el"])

text \<open>
  C2 (direction invariance), as stated, fails in its second part: for a drag from an
  anchor whose x coordinate is \<open>Infinity\<close> to another such anchor, the width of the box is
  \<open>Infinity - Infinity\<close>, which is NaN, and NaN is not at least 0.
\<close>

theorem infinite_drag_width:
  "r_w (normalizeRect Infinity (Number 0) Infinity (Number 0)) = NaN
   \<and> \<not> Number 0 \<le> r_w (normalizeRect Infinity (Number 0) Infinity (Number 0))"
  by (simp add: normalizeRect_def Math_max_def Math_min_def Let_def)

text \<open>
  C2, amended. \<open>normalizeRect\<close> gives the same box for a drag and for its reverse, for all
  numbers; for finite coordinates the width and the height of the box are at least 0; for
  all numbers the width and the height are never below 0 (for coordinates that are not
  finite they can be NaN); and the calls that \<open>drawShape\<close> makes for a shape that is not a
  line are the same for a drag and for its reverse.
\<close>

theorem direction_invariance:
  "normalizeRect x1 y1 x2 y2 = normalizeRect x2 y2 x1 y1
   \<and> (isFinite x1 \<and> isFinite y1 \<and> isFinite x2 \<and> isFinite y2 \<longrightarrow>
        Number 0 \<le> r_w (normalizeRect x1 y1 x2 y2)
        \<and> Number 0 \<le> r_h (normalizeRect x1 y1 x2 y2))
   \<and> (sh_shape el \<noteq> Line \<longrightarrow>
        drawShape (el\<lparr>sh_x1 := sh_x2 el, sh_y1 := sh_y2 el, sh_x2 := sh_x1 el,
                      sh_y2 := sh_y1 el\<rparr>)
        = drawShape el)
   \<and> \<not> r_w (normalizeRect x1 y1 x2 y2) < Number 0
   \<and> \<not> r_h (normalizeRect x1 y1 x2 y2) < Number 0"
proof (intro conjI impI)
  show "normalizeRect x1 y1 x2 y2 = normalizeRect x2 y2 x1 y1"
    by (rule normalizeRect_commute)
  show "\<not> r_w (normalizeRect x1 y1 x2 y2) < Number 0"
    unfolding normalizeRect_def Let_def NormRect.simps by (rule extent_not_negative)
  show "\<not> r_h (normalizeRect x1 y1 x2 y2) < Number 0"
    unfolding normalizeRect_def Let_def NormRect.simps by (rule extent_not_negative)
next
  assume "isFinite x1 \<and> isFinite y1 \<and> isFinite x2 \<and> isFinite y2"
  then obtain a b c d where "x1 = Number a" "y1 = Number b" "x2 = Number c" "y2 = Number d"
    by (cases x1; cases y1; cases x2; cases y2) auto
  then show "Number 0 \<le> r_w (normalizeRect x1 y1 x2 y2)"
    "Number 0 \<le> r_h (normalizeRect x1 y1 x2 y2)"
    by (simp_all add: normalizeRect_Number)
next
  assume "sh_shape el \<noteq> Line"
  then show "drawShape (el\<lparr>sh_x1 := sh_x2 el, sh_y1 := sh_y2 el, sh_x2 := sh_x1 el,
                             sh_y2 := sh_y1 el\<rparr>)
        = drawShape el"
    by (rule drawShape_reverse)
qed

theorem direction_invariance_witness:
  "isFinite (Number 50) \<and> isFinite (Number 40) \<and> isFinite (Number 10) \<and> isFinite (Number 10)
   \<and> Number 0 \<le> r_w (normalizeRect (Number 50) (Number 40) (Number 10) (Number 10))
   \<and> Number 0 \<le> r_h (normalizeRect (Number 50) (Number 40) (Number 10) (Number 10))
   \<and> sh_shape \<lparr>sh_id = ''a'', sh_shape = Heart, sh_x1 = Number 50, sh_y1 = Number 40,
                 sh_x2 = Number 10, sh_y2 = Number 10, sh_color = ''#111111'',
                 sh_size = Number 6\<rparr> \<noteq> Line
   \<and> drawShape \<lparr>sh_id = ''a'', sh_shape = Heart, sh_x1 = Number 10, sh_y1 = Number 10,
                  sh_x2 = Number 50, sh_y2 = Number 40, sh_color = ''#111111'',
                  sh_size = Number 6\<rparr>
     = drawShape \<lparr>sh_id = ''a'', sh_shape = Heart, sh_x1 = Number 50, sh_y1 = Number 40,
                  sh_x2 = Number 10, sh_y2 = Number 10, sh_color = ''#111111'',
                  sh_size = Number 6\<rparr>"
  using direction_invariance[of "Number 50" "Number 40" "Number 10" "Number 10"
      "\<lparr>sh_id = ''a'', sh_shape = Heart, sh_x1 = Number 50, sh_y1 = Number 40,
        sh_x2 = Number 10, sh_y2 = Number 10, sh_color = ''#111111'', sh_size = Number 6\<rparr>",
      THEN conjunct2]
  by simp

section \<open>Rounding to binary64: exact and rounded results\<close>

lemma roundHalfEven_of_int: "roundHalfEven (of_int m) = m"
  by (simp add: roundHalfEven_def)

lemma binary64_zero: "binary64 0 = Number 0"
  by (simp add: binary64_def)

lemma floor_log2_bounds:
  assumes "0 < x"
  shows "2 powi \<lfloor>log 2 x\<rfloor> \<le> x" "x < 2 powi (\<lfloor>log 2 x\<rfloor> + 1)"
proof -
  have p: "2 powr (of_int k) = (2::real) powi k" for k
    by (rule powr_real_of_int') simp_all
  have "2 powr real_of_int \<lfloor>log 2 x\<rfloor> \<le> x \<and> x < 2 powr real_of_int (\<lfloor>log 2 x\<rfloor> + 1)"
    using floor_log_eq_powr_iff[of x 2 "\<lfloor>log 2 x\<rfloor>"] assms by simp
  then show "2 powi \<lfloor>log 2 x\<rfloor> \<le> x" "x < 2 powi (\<lfloor>log 2 x\<rfloor> + 1)"
    by (simp_all only: p)
qed

lemma floor_log2:
  assumes "2 powi e \<le> x" "x < 2 powi (e + 1)"
  shows "\<lfloor>log 2 x\<rfloor> = e"
proof -
  have p: "2 powr (of_int k) = (2::real) powi k" for k
    by (rule powr_real_of_int') simp_all
  have "0 < (2::real) powi e" by simp
  then have x: "0 < x" using assms(1) by linarith
  have "2 powr real_of_int e \<le> x \<and> x < 2 powr real_of_int (e + 1)"
    using assms by (simp only: p)
  then show ?thesis
    using floor_log_eq_powr_iff[of x 2 e] x by simp
qed

lemma binary64_eval:
  assumes "2 powi e \<le> \<bar>x\<bar>" "\<bar>x\<bar> < 2 powi (e + 1)" "- 1022 \<le> e"
    and "roundHalfEven (x / 2 powi (e - 52)) = m"
    and "\<bar>of_int m * 2 powi (e - 52)\<bar> < (2::real) ^ 1024"
  shows "binary64 x = Number (of_int m * 2 powi (e - 52))"
proof -
  have "0 < (2::real) powi e" by simp
  then have x: "x \<noteq> 0" using assms(1) by linarith
  have e: "\<lfloor>log 2 \<bar>x\<bar>\<rfloor> = e" using assms(1,2) by (rule floor_log2)
  show ?thesis
    using x assms(3,4,5) by (simp add: binary64_def e Let_def max_def)
qed

lemma binary64_exact:
  fixes m i :: int
  assumes m: "\<bar>m\<bar> < 2 ^ 53" and i: "- 1074 \<le> i" "i \<le> 970"
  shows "binary64 (of_int m * 2 powi i) = Number (of_int m * 2 powi i)"
proof (cases "m = 0")
  case True
  then show ?thesis by (simp add: binary64_def)
next
  case False
  define x :: real where "x = of_int m * 2 powi i"
  have x0: "x \<noteq> 0" using False by (simp add: x_def)
  define e0 where "e0 = \<lfloor>log 2 \<bar>x\<bar>\<rfloor>"
  define e where "e = max e0 (- 1022)"
  have lo: "2 powi e0 \<le> \<bar>x\<bar>"
    unfolding e0_def using x0 by (intro floor_log2_bounds) simp
  have ax: "\<bar>x\<bar> = of_int \<bar>m\<bar> * 2 powi i"
    by (simp add: x_def abs_mult)
  have "of_int \<bar>m\<bar> < (2::real) ^ 53"
    using m by (metis of_int_less_numeral_power_cancel_iff)
  then have "\<bar>x\<bar> < 2 ^ 53 * 2 powi i"
    unfolding ax by (simp add: mult_strict_right_mono)
  also have "\<dots> = 2 powi (53 + i)"
    by (simp add: power_int_add)
  finally have hi: "\<bar>x\<bar> < 2 powi (53 + i)" .
  have "(2::real) powi e0 < 2 powi (53 + i)"
    using lo hi by linarith
  then have "e0 < 53 + i"
    by (smt (verit) power_int_increasing)
  then have ei: "e \<le> i + 52"
    using i by (simp add: e_def)
  define k where "k = nat (i + 52 - e)"
  have ik: "i = (e - 52) + int k"
    using ei by (simp add: k_def)
  have "x = of_int m * (2 powi (e - 52) * 2 ^ k)"
    unfolding x_def by (subst ik) (simp add: power_int_add)
  then have q: "x / 2 powi (e - 52) = of_int (m * 2 ^ k)"
    by simp
  have r: "roundHalfEven (x / 2 powi (e - 52)) = m * 2 ^ k"
    unfolding q by (rule roundHalfEven_of_int)
  have y: "of_int (m * 2 ^ k) * 2 powi (e - 52) = x"
    using q by (simp add: field_simps)
  have "(2::real) powi (53 + i) \<le> 2 powi 1023"
    using i by (intro power_int_increasing) simp_all
  then have "\<bar>x\<bar> < 2 powi 1023"
    using hi by linarith
  also have "\<dots> < (2::real) ^ 1024"
    by simp
  finally have b: "\<not> 2 ^ 1024 \<le> \<bar>x\<bar>" by simp
  have y': "real_of_int m * 2 ^ k * 2 powi (e - 52) = x"
    using y by simp
  have "binary64 x = Number x"
    using x0 b by (simp add: binary64_def Let_def e0_def[symmetric] e_def[symmetric] r y')
  then show ?thesis
    by (simp add: x_def)
qed

lemma binary64_int:
  assumes "x \<in> \<int>" "\<bar>x\<bar> < 2 ^ 53"
  shows "binary64 x = Number x"
proof -
  from assms(1) obtain m where x: "x = of_int m" by (rule Ints_cases)
  have "\<bar>m\<bar> < 2 ^ 53"
    using assms(2) unfolding x by (metis of_int_abs of_int_less_numeral_power_cancel_iff)
  then show ?thesis
    using binary64_exact[of m 0] by (simp add: x)
qed

text \<open>The literal \<open>1e-6\<close> is rounded.\<close>

lemma epsilon_value: "epsilon = Number (4722366482869645 / 2 ^ 72)"
  unfolding epsilon_def
  by (subst binary64_eval[where e = "- 20" and m = "4722366482869645"];
      simp add: roundHalfEven_def Let_def power_int_minus)

lemma epsilon_positive: "Number 0 < epsilon"
  by (simp add: epsilon_value)

text \<open>
  The hit test at two points that are on the boundary of the test in exact arithmetic.
  The point \<open>(10, 0)\<close> is at distance 8 of the segment from \<open>(0, 0)\<close> to \<open>(9, 12)\<close>: the
  projection parameter is \<open>0.4\<close>, which is rounded, and the squared distance that the engine
  computes is \<open>64 + 2\<^sup>-\<^sup>4\<^sup>6\<close>, above the threshold 64. Each step below is one operation of the
  source with its rounded result.
\<close>

lemma boundaryLine_miss:
  "\<not> hitTestShape boundaryLine \<lparr>pt_x = Number 10, pt_y = Number 0\<rparr>"
proof -
  have s1: "sub64 (Number 9) (Number 0) = Number 9"
    by (simp add: sub64_def binary64_int)
  have s2: "sub64 (Number 12) (Number 0) = Number 12"
    by (simp add: sub64_def binary64_int)
  have s3: "mul64 (Number 9) (Number 9) = Number 81"
    by (simp add: mul64_def binary64_int)
  have s4: "mul64 (Number 12) (Number 12) = Number 144"
    by (simp add: mul64_def binary64_int)
  have s5: "add64 (Number 81) (Number 144) = Number 225"
    by (simp add: add64_def binary64_int)
  have s6: "sub64 (Number 10) (Number 0) = Number 10"
    by (simp add: sub64_def binary64_int)
  have s7: "mul64 (Number 10) (Number 9) = Number 90"
    by (simp add: mul64_def binary64_int)
  have s8: "sub64 (Number 0) (Number 0) = Number 0"
    by (simp add: sub64_def binary64_zero)
  have s9: "mul64 (Number 0) (Number 12) = Number 0"
    by (simp add: mul64_def binary64_zero)
  have s10: "add64 (Number 90) (Number 0) = Number 90"
    by (simp add: add64_def binary64_int)
  have s11: "div64 (Number 90) (Number 225) = Number (3602879701896397 / 2 ^ 53)"
    by (simp add: div64_def)
       (subst binary64_eval[where e = "- 2" and m = "7205759403792794"];
        simp add: roundHalfEven_def Let_def power_int_minus)
  have s12: "mul64 (Number (3602879701896397 / 2 ^ 53)) (Number 9) = Number (8106479329266893 / 2 ^ 51)"
    by (simp add: mul64_def)
       (subst binary64_eval[where e = "1" and m = "8106479329266893"];
        simp add: roundHalfEven_def Let_def power_int_minus)
  have s13: "add64 (Number 0) (Number (8106479329266893 / 2 ^ 51)) = Number (8106479329266893 / 2 ^ 51)"
    by (simp add: add64_def)
       (subst binary64_eval[where e = "1" and m = "8106479329266893"];
        simp add: roundHalfEven_def Let_def power_int_minus)
  have s14: "mul64 (Number (3602879701896397 / 2 ^ 53)) (Number 12) = Number (1351079888211149 / 2 ^ 48)"
    by (simp add: mul64_def)
       (subst binary64_eval[where e = "2" and m = "5404319552844596"];
        simp add: roundHalfEven_def Let_def power_int_minus)
  have s15: "add64 (Number 0) (Number (1351079888211149 / 2 ^ 48)) = Number (1351079888211149 / 2 ^ 48)"
    by (simp add: add64_def)
       (subst binary64_eval[where e = "2" and m = "5404319552844596"];
        simp add: roundHalfEven_def Let_def power_int_minus)
  have s16: "sub64 (Number 10) (Number (8106479329266893 / 2 ^ 51)) = Number (3602879701896397 / 2 ^ 49)"
    by (simp add: sub64_def)
       (subst binary64_eval[where e = "2" and m = "7205759403792794"];
        simp add: roundHalfEven_def Let_def power_int_minus)
  have s17: "sub64 (Number 0) (Number (1351079888211149 / 2 ^ 48)) = Number (- (1351079888211149 / 2 ^ 48))"
    by (simp add: sub64_def)
       (subst binary64_eval[where e = "2" and m = "- 5404319552844596"];
        simp add: roundHalfEven_def Let_def power_int_minus)
  have s18: "mul64 (Number (3602879701896397 / 2 ^ 49)) (Number (3602879701896397 / 2 ^ 49)) = Number (1441151880758559 / 2 ^ 45)"
    by (simp add: mul64_def)
       (subst binary64_eval[where e = "5" and m = "5764607523034236"];
        simp add: roundHalfEven_def Let_def power_int_minus)
  have s19: "mul64 (Number (- (1351079888211149 / 2 ^ 48))) (Number (- (1351079888211149 / 2 ^ 48))) = Number (1621295865853379 / 2 ^ 46)"
    by (simp add: mul64_def)
       (subst binary64_eval[where e = "4" and m = "6485183463413516"];
        simp add: roundHalfEven_def Let_def power_int_minus)
  have s20: "add64 (Number (1441151880758559 / 2 ^ 45)) (Number (1621295865853379 / 2 ^ 46)) = Number (4503599627370497 / 2 ^ 46)"
    by (simp add: add64_def)
       (subst binary64_eval[where e = "6" and m = "4503599627370497"];
        simp add: roundHalfEven_def Let_def power_int_minus)
  have s21: "add64 (Number 6) (Number 2) = Number 8"
    by (simp add: add64_def binary64_int)
  have s22: "mul64 (Number 8) (Number 8) = Number 64"
    by (simp add: mul64_def binary64_int)
  have c1: "Math_max (Number 6) (Number 6) = Number 6"
    by simp
  have c2: "\<not> Number 225 < epsilon"
    by (simp add: epsilon_value)
  have c3: "Math_max (Number 0) (Math_min (Number 1) (Number (3602879701896397 / 2 ^ 53)))
            = Number (3602879701896397 / 2 ^ 53)"
    by simp
  have c4: "\<not> Number (4503599627370497 / 2 ^ 46) \<le> Number 64"
    by simp
  show ?thesis
    unfolding hitTestShape_def line_t_def line_len2_def hit_pad_def Let_def boundaryLine_def
    by (simp only: ShapeElement.simps Point.simps if_True if_False simp_thms
        s1 s2 s3 s4 s5 s6 s7 s8 s9 s10 s11 s12 s13 s14 s15 s16 s17 s18 s19 s20 s21 s22 c1 c2 c3 c4)
qed

lemma boundaryLine_parameter:
  "line_t boundaryLine \<lparr>pt_x = Number 10, pt_y = Number 0\<rparr>
   = Number (3602879701896397 / 2 ^ 53)"
proof -
  have s1: "sub64 (Number 9) (Number 0) = Number 9"
    by (simp add: sub64_def binary64_int)
  have s2: "sub64 (Number 12) (Number 0) = Number 12"
    by (simp add: sub64_def binary64_int)
  have s3: "mul64 (Number 9) (Number 9) = Number 81"
    by (simp add: mul64_def binary64_int)
  have s4: "mul64 (Number 12) (Number 12) = Number 144"
    by (simp add: mul64_def binary64_int)
  have s5: "add64 (Number 81) (Number 144) = Number 225"
    by (simp add: add64_def binary64_int)
  have s6: "sub64 (Number 10) (Number 0) = Number 10"
    by (simp add: sub64_def binary64_int)
  have s7: "mul64 (Number 10) (Number 9) = Number 90"
    by (simp add: mul64_def binary64_int)
  have s8: "sub64 (Number 0) (Number 0) = Number 0"
    by (simp add: sub64_def binary64_zero)
  have s9: "mul64 (Number 0) (Number 12) = Number 0"
    by (simp add: mul64_def binary64_zero)
  have s10: "add64 (Number 90) (Number 0) = Number 90"
    by (simp add: add64_def binary64_int)
  have s11: "div64 (Number 90) (Number 225) = Number (3602879701896397 / 2 ^ 53)"
    by (simp add: div64_def)
       (subst binary64_eval[where e = "- 2" and m = "7205759403792794"];
        simp add: roundHalfEven_def Let_def power_int_minus)
  have c3: "Math_max (Number 0) (Math_min (Number 1) (Number (3602879701896397 / 2 ^ 53)))
            = Number (3602879701896397 / 2 ^ 53)"
    by simp
  show ?thesis
    unfolding line_t_def line_len2_def Let_def boundaryLine_def
    by (simp only: ShapeElement.simps Point.simps s1 s2 s3 s4 s5 s6 s7 s8 s9 s10 s11 c3)
qed

text \<open>
  The point \<open>(-5, 2)\<close> and the ellipse in the box from \<open>(0, 0)\<close> to \<open>(14, 14)\<close>: the two
  quotients \<open>-12/13\<close> and \<open>-5/13\<close> are rounded, and the sum of their squares that the engine
  computes is \<open>1 + 2\<^sup>-\<^sup>5\<^sup>2\<close>.
\<close>

lemma boundaryEllipse_miss:
  "\<not> hitTestShape boundaryEllipse \<lparr>pt_x = Number (- 5), pt_y = Number 2\<rparr>"
proof -
  have s1: "sub64 (Number 14) (Number 0) = Number 14"
    by (simp add: sub64_def binary64_int)
  have s2: "div64 (Number 14) (Number 2) = Number 7"
    by (simp add: div64_def binary64_int)
  have s3: "add64 (Number 0) (Number 7) = Number 7"
    by (simp add: add64_def binary64_int)
  have s4: "add64 (Number 7) (Number 6) = Number 13"
    by (simp add: add64_def binary64_int)
  have s5: "sub64 (Number (- 5)) (Number 7) = Number (- 12)"
    by (simp add: sub64_def binary64_int)
  have s6: "div64 (Number (- 12)) (Number 13) = Number (- (4157168886803535 / 2 ^ 52))"
    by (simp add: div64_def)
       (subst binary64_eval[where e = "- 1" and m = "- 8314337773607070"];
        simp add: roundHalfEven_def Let_def power_int_minus)
  have s7: "sub64 (Number 2) (Number 7) = Number (- 5)"
    by (simp add: sub64_def binary64_int)
  have s8: "div64 (Number (- 5)) (Number 13) = Number (- (6928614811339225 / 2 ^ 54))"
    by (simp add: div64_def)
       (subst binary64_eval[where e = "- 2" and m = "- 6928614811339225"];
        simp add: roundHalfEven_def Let_def power_int_minus)
  have s9: "mul64 (Number (- (4157168886803535 / 2 ^ 52))) (Number (- (4157168886803535 / 2 ^ 52))) = Number (3837386664741725 / 2 ^ 52)"
    by (simp add: mul64_def)
       (subst binary64_eval[where e = "- 1" and m = "7674773329483450"];
        simp add: roundHalfEven_def Let_def power_int_minus)
  have s10: "mul64 (Number (- (6928614811339225 / 2 ^ 54))) (Number (- (6928614811339225 / 2 ^ 54))) = Number (5329703701030173 / 2 ^ 55)"
    by (simp add: mul64_def)
       (subst binary64_eval[where e = "- 3" and m = "5329703701030173"];
        simp add: roundHalfEven_def Let_def power_int_minus)
  have s11: "add64 (Number (3837386664741725 / 2 ^ 52)) (Number (5329703701030173 / 2 ^ 55)) = Number (4503599627370497 / 2 ^ 52)"
    by (simp add: add64_def)
       (subst binary64_eval[where e = "0" and m = "4503599627370497"];
        simp add: roundHalfEven_def Let_def power_int_minus)
  have c1: "Math_max (Number 6) (Number 6) = Number 6"
    "Math_min (Number 0) (Number 14) = Number 0"
    "Math_max (Number 0) (Number 14) = Number 14"
    "Math_max (Number 1) (Number 7) = Number 7"
    by simp_all
  have c2: "\<not> Number (4503599627370497 / 2 ^ 52) \<le> Number 1"
    by simp
  show ?thesis
    unfolding hitTestShape_def normalizeRect64_def hit_pad_def Let_def boundaryEllipse_def
    by (simp only: ShapeElement.simps NormRect.simps Point.simps ShapeType.simps if_True
        if_False simp_thms s1 s2 s3 s4 s5 s6 s7 s8 s9 s10 s11 c1 c2)
qed

text \<open>Where every intermediate result is an integer, no operation rounds.\<close>

lemma pointLine_hit:
  "line_len2 pointLine < epsilon
   \<and> hitTestShape pointLine \<lparr>pt_x = Number 5, pt_y = Number 3\<rparr>"
  by (simp add: hitTestShape_def line_len2_def hit_pad_def pointLine_def Let_def epsilon_value
      add64_def sub64_def mul64_def binary64_int binary64_zero)

lemma boundaryLine_len2: "line_len2 boundaryLine = Number 225"
  by (simp add: line_len2_def boundaryLine_def Let_def add64_def sub64_def mul64_def
      binary64_int)

lemma boundaryLine_far:
  "\<not> hitTestShape boundaryLine \<lparr>pt_x = Number 30, pt_y = Number 25\<rparr>"
proof -
  have t: "binary64 (38 / 15) = Number (1426139882000657 / 2 ^ 49)"
    by (subst binary64_eval[where e = "1" and m = "5704559528002628"];
        simp add: roundHalfEven_def Let_def power_int_minus)
  show ?thesis
    by (simp add: hitTestShape_def line_t_def line_len2_def hit_pad_def boundaryLine_def Let_def
        epsilon_value add64_def sub64_def mul64_def div64_def binary64_int binary64_zero t)
qed

text \<open>An infinite anchor gives no parameter: the quotient is \<open>Infinity / Infinity\<close>.\<close>

lemma infiniteLine_parameter:
  "\<not> line_len2 infiniteLine < epsilon
   \<and> line_t infiniteLine \<lparr>pt_x = Number 5, pt_y = Number 3\<rparr> = NaN"
  by (simp add: line_t_def line_len2_def infiniteLine_def Let_def epsilon_value
      add64_def sub64_def mul64_def div64_def binary64_int binary64_zero signedInfinity_def
      Math_max_def Math_min_def)

section \<open>Hit testing\<close>

lemma find_snoc:
  "find P (xs @ [x]) = (case find P xs of Some y \<Rightarrow> Some y | None \<Rightarrow> if P x then Some x else None)"
  by (induction xs) auto

lemma findHit_Nil [simp]: "findHit [] p = None"
  by (simp add: findHit_def)

lemma findHit_Cons:
  "findHit (e # els) p =
     (case findHit els p of
        Some s \<Rightarrow> Some s
      | None \<Rightarrow> (case e of Stroke st \<Rightarrow> None
                  | Shape sh \<Rightarrow> if hitTestShape sh p then Some sh else None))"
  by (cases e) (simp_all add: findHit_def find_snoc split: option.splits)

lemma findHit_None: "findHit els p = None \<longleftrightarrow> (\<forall>sh. Shape sh \<in> set els \<longrightarrow> \<not> hitTestShape sh p)"
  by (induction els) (auto simp: findHit_Cons split: option.splits Element.splits)

lemma findHit_Some:
  "findHit els p = Some s \<longleftrightarrow>
     (\<exists>pre post. els = pre @ Shape s # post \<and> hitTestShape s p
        \<and> (\<forall>sh. Shape sh \<in> set post \<longrightarrow> \<not> hitTestShape sh p))"
proof (induction els)
  case Nil
  then show ?case by simp
next
  case (Cons e els)
  show ?case
  proof (cases "findHit els p")
    case None
    then have no: "\<forall>sh. Shape sh \<in> set els \<longrightarrow> \<not> hitTestShape sh p"
      by (simp add: findHit_None)
    show ?thesis
    proof
      assume "findHit (e # els) p = Some s"
      then have "e = Shape s" "hitTestShape s p"
        using None by (auto simp: findHit_Cons split: Element.splits if_splits)
      then have "e # els = [] @ Shape s # els \<and> hitTestShape s p
            \<and> (\<forall>sh. Shape sh \<in> set els \<longrightarrow> \<not> hitTestShape sh p)"
        using no by simp
      then show "\<exists>pre post. e # els = pre @ Shape s # post \<and> hitTestShape s p
        \<and> (\<forall>sh. Shape sh \<in> set post \<longrightarrow> \<not> hitTestShape sh p)"
        by blast
    next
      assume "\<exists>pre post. e # els = pre @ Shape s # post \<and> hitTestShape s p
        \<and> (\<forall>sh. Shape sh \<in> set post \<longrightarrow> \<not> hitTestShape sh p)"
      then obtain pre post where d: "e # els = pre @ Shape s # post" "hitTestShape s p"
        by blast
      have "pre = []"
      proof (cases pre)
        case Nil then show ?thesis .
      next
        case (Cons a pre')
        then have "Shape s \<in> set els" using d(1) by auto
        then show ?thesis using no d(2) by blast
      qed
      then have "e = Shape s" using d(1) by simp
      then show "findHit (e # els) p = Some s"
        using None d(2) by (simp add: findHit_Cons)
    qed
  next
    case (Some s')
    then have eq: "findHit (e # els) p = Some s'" by (simp add: findHit_Cons)
    show ?thesis
    proof
      assume "findHit (e # els) p = Some s"
      then have "s = s'" using eq by simp
      then have "findHit els p = Some s" using Some by simp
      then obtain pre post where "els = pre @ Shape s # post" "hitTestShape s p"
        "\<forall>sh. Shape sh \<in> set post \<longrightarrow> \<not> hitTestShape sh p"
        using Cons.IH by blast
      then have "e # els = (e # pre) @ Shape s # post \<and> hitTestShape s p
          \<and> (\<forall>sh. Shape sh \<in> set post \<longrightarrow> \<not> hitTestShape sh p)" by simp
      then show "\<exists>pre post. e # els = pre @ Shape s # post \<and> hitTestShape s p
        \<and> (\<forall>sh. Shape sh \<in> set post \<longrightarrow> \<not> hitTestShape sh p)"
        by blast
    next
      assume "\<exists>pre post. e # els = pre @ Shape s # post \<and> hitTestShape s p
        \<and> (\<forall>sh. Shape sh \<in> set post \<longrightarrow> \<not> hitTestShape sh p)"
      then obtain pre post where d: "e # els = pre @ Shape s # post" "hitTestShape s p"
        "\<forall>sh. Shape sh \<in> set post \<longrightarrow> \<not> hitTestShape sh p"
        by blast
      have "pre \<noteq> []"
      proof
        assume "pre = []"
        then have "els = post" using d(1) by simp
        then have "findHit els p = None" using d(3) by (simp add: findHit_None)
        then show False using Some by simp
      qed
      then obtain pre' where "pre = e # pre'" "els = pre' @ Shape s # post"
        using d(1) by (cases pre) auto
      then have "findHit els p = Some s" using Cons.IH d(2,3) by blast
      then show "findHit (e # els) p = Some s" by (simp add: findHit_Cons)
    qed
  qed
qed

text \<open>
  A press with the select tool: the handler searches the document of its closure, which in
  a session is the document of the state.
\<close>

lemma onPointerDown_select:
  assumes "tool c = Select"
  shows "\<exists>s'. onPointerDown newId rnd rect e c s = Inr s'
           \<and> selectedId s' = map_option sh_id (findHit (elements c) (getCanvasPoint e rect))"
  using assms by (simp add: onPointerDown_def Let_def split: option.splits)

lemma pointerDown_select:
  assumes "agrees ss" "tool (live ss) = Select"
  shows "\<exists>ss'. pointerDown newId rnd rect e ss = Inr ss'
           \<and> selectedId (live ss')
             = map_option sh_id (findHit (elements (live ss)) (getCanvasPoint e rect))"
proof -
  have t: "tool (bound ss) = Select" and el: "elements (bound ss) = elements (live ss)"
    using assms by (simp_all add: agrees_def)
  obtain s' where s': "onPointerDown newId rnd rect e (bound ss) (live ss) = Inr s'"
    "selectedId s' = map_option sh_id (findHit (elements (bound ss)) (getCanvasPoint e rect))"
    using onPointerDown_select[OF t] by blast
  show ?thesis
    using s' el by (simp add: pointerDown_def rerender_def)
qed

text \<open>The three tests of \<open>hitTestShape\<close>, for all numbers.\<close>

lemma hit_line:
  assumes "sh_shape sh = Line"
  shows "hitTestShape sh q
         = (let pad = Math_max (Number 6) (sh_size sh);
                dx = sub64 (sh_x2 sh) (sh_x1 sh);
                dy = sub64 (sh_y2 sh) (sh_y1 sh);
                len2 = add64 (mul64 dx dx) (mul64 dy dy);
                t = Math_max (Number 0) (Math_min (Number 1)
                      (div64 (add64 (mul64 (sub64 (pt_x q) (sh_x1 sh)) dx)
                                    (mul64 (sub64 (pt_y q) (sh_y1 sh)) dy)) len2));
                nx = (if len2 < epsilon then sh_x1 sh else add64 (sh_x1 sh) (mul64 t dx));
                ny = (if len2 < epsilon then sh_y1 sh else add64 (sh_y1 sh) (mul64 t dy));
                ddx = sub64 (pt_x q) nx;
                ddy = sub64 (pt_y q) ny
            in add64 (mul64 ddx ddx) (mul64 ddy ddy)
               \<le> mul64 (add64 pad (Number 2)) (add64 pad (Number 2)))"
  using assms by (simp add: hitTestShape_def line_t_def line_len2_def hit_pad_def Let_def)

lemma hit_ellipse:
  assumes "sh_shape sh = Ellipse"
  shows "hitTestShape sh q
         = (let pad = Math_max (Number 6) (sh_size sh);
                l = Math_min (sh_x1 sh) (sh_x2 sh);
                t = Math_min (sh_y1 sh) (sh_y2 sh);
                w = sub64 (Math_max (sh_x1 sh) (sh_x2 sh)) l;
                h = sub64 (Math_max (sh_y1 sh) (sh_y2 sh)) t;
                cx = add64 l (div64 w (Number 2));
                cy = add64 t (div64 h (Number 2));
                rx = add64 (Math_max (Number 1) (div64 w (Number 2))) pad;
                ry = add64 (Math_max (Number 1) (div64 h (Number 2))) pad;
                nx = div64 (sub64 (pt_x q) cx) rx;
                ny = div64 (sub64 (pt_y q) cy) ry
            in add64 (mul64 nx nx) (mul64 ny ny) \<le> Number 1)"
  using assms by (simp add: hitTestShape_def normalizeRect64_def hit_pad_def Let_def)

lemma hit_box:
  assumes "sh_shape sh \<noteq> Line" "sh_shape sh \<noteq> Ellipse"
  shows "hitTestShape sh q
         = (let pad = Math_max (Number 6) (sh_size sh)
            in sub64 (Math_min (sh_x1 sh) (sh_x2 sh)) pad \<le> pt_x q
               \<and> pt_x q \<le> add64 (Math_max (sh_x1 sh) (sh_x2 sh)) pad
               \<and> sub64 (Math_min (sh_y1 sh) (sh_y2 sh)) pad \<le> pt_y q
               \<and> pt_y q \<le> add64 (Math_max (sh_y1 sh) (sh_y2 sh)) pad)"
  using assms by (simp add: hitTestShape_def normalizeRect64_def hit_pad_def Let_def)

text \<open>
  For integer anchors and an integer size below \<open>2\<^sup>5\<^sup>2\<close> the operations of the box test do
  not round, and the test is the one of exact arithmetic.
\<close>

lemma hit_box_integer:
  assumes k: "k \<noteq> Line" "k \<noteq> Ellipse"
    and z: "x1 \<in> \<int>" "y1 \<in> \<int>" "x2 \<in> \<int>" "y2 \<in> \<int>" "sz \<in> \<int>"
    and b: "\<bar>x1\<bar> < 2 ^ 52" "\<bar>y1\<bar> < 2 ^ 52" "\<bar>x2\<bar> < 2 ^ 52" "\<bar>y2\<bar> < 2 ^ 52" "\<bar>sz\<bar> < 2 ^ 52"
  shows "hitTestShape \<lparr>sh_id = i, sh_shape = k, sh_x1 = Number x1, sh_y1 = Number y1,
            sh_x2 = Number x2, sh_y2 = Number y2, sh_color = c, sh_size = Number sz\<rparr>
           \<lparr>pt_x = Number px, pt_y = Number py\<rparr>
         = (min x1 x2 - max 6 sz \<le> px \<and> px \<le> max x1 x2 + max 6 sz
            \<and> min y1 y2 - max 6 sz \<le> py \<and> py \<le> max y1 y2 + max 6 sz)"
proof -
  have p: "max 6 sz \<in> \<int>" "\<bar>max 6 sz\<bar> < 2 ^ 52"
    using z b by (auto simp: max_def)
  have m: "min x1 x2 \<in> \<int>" "max x1 x2 \<in> \<int>" "min y1 y2 \<in> \<int>" "max y1 y2 \<in> \<int>"
    "\<bar>min x1 x2\<bar> < 2 ^ 52" "\<bar>max x1 x2\<bar> < 2 ^ 52" "\<bar>min y1 y2\<bar> < 2 ^ 52" "\<bar>max y1 y2\<bar> < 2 ^ 52"
    using z b by (auto simp: min_def max_def)
  have e: "binary64 (u - v) = Number (u - v)" "binary64 (u + v) = Number (u + v)"
    if "u \<in> \<int>" "v \<in> \<int>" "\<bar>u\<bar> < 2 ^ 52" "\<bar>v\<bar> < 2 ^ 52" for u v :: real
  proof -
    have "\<bar>u - v\<bar> < 2 ^ 53" "\<bar>u + v\<bar> < 2 ^ 53"
      using that(3,4) by simp_all
    then show "binary64 (u - v) = Number (u - v)" "binary64 (u + v) = Number (u + v)"
      using that(1,2) by (simp_all add: binary64_int)
  qed
  show ?thesis
    using k
    by (simp add: hit_box Let_def add64_def sub64_def e[OF m(1) p(1) m(5) p(2)]
        e[OF m(2) p(1) m(6) p(2)] e[OF m(3) p(1) m(7) p(2)] e[OF m(4) p(1) m(8) p(2)])
qed

text \<open>The divisor of the line branch, and the clamped parameter.\<close>

lemma line_len2_nonzero:
  assumes "\<not> line_len2 sh < epsilon"
  shows "toNumber (line_len2 sh) \<noteq> Number 0"
proof
  assume "toNumber (line_len2 sh) = Number 0"
  then have "line_len2 sh < epsilon"
    using epsilon_positive by simp
  then show False using assms by simp
qed

lemma clamp_range:
  "Math_max (Number 0) (Math_min (Number 1) t) = NaN
   \<or> (Number 0 \<le> Math_max (Number 0) (Math_min (Number 1) t)
      \<and> Math_max (Number 0) (Math_min (Number 1) t) \<le> Number 1)"
  by (cases t) (auto simp: Math_max_def Math_min_def)

lemma line_t_range:
  "line_t sh q = NaN \<or> (Number 0 \<le> line_t sh q \<and> line_t sh q \<le> Number 1)"
  unfolding line_t_def Let_def by (rule clamp_range)

lemma round64_NaN [simp]: "round64 NaN = NaN"
  by simp

lemma add64_NaN [simp]: "add64 NaN b = NaN" "add64 a NaN = NaN"
  by (cases a; simp add: add64_def)+

lemma sub64_NaN [simp]: "sub64 NaN b = NaN" "sub64 a NaN = NaN"
  by (cases a; cases b; simp add: sub64_def)+

lemma mul64_NaN [simp]: "mul64 NaN b = NaN" "mul64 a NaN = NaN"
  by (cases a; cases b; simp add: mul64_def)+

lemma NaN_not_le [simp]: "\<not> NaN \<le> b"
  by simp

lemma line_t_NaN:
  assumes "sh_shape sh = Line" "\<not> line_len2 sh < epsilon" "line_t sh q = NaN"
  shows "\<not> hitTestShape sh q"
  using assms by (simp add: hitTestShape_def Let_def)

text \<open>
  C4 (hit-test resolver). The resolver returns a shape, never a stroke. It returns \<open>s\<close>
  exactly when \<open>s\<close> is a shape of the document that passes its test and no shape after it
  passes; it returns nothing exactly when no shape of the document passes; and in a
  session a press with the select tool selects the id of the shape that the resolver
  returns for the document of the state. The test of a shape is, for all numbers, with the
  rounded operations of the engine and \<open>pad = max(6, size)\<close>: for a line, the squared
  distance from the point to the point of the segment at the projection parameter clamped
  to \<open>[0,1]\<close> (to the first anchor when the squared length is below \<open>1e-6\<close>) is at most
  \<open>(pad+2)\<^sup>2\<close>; for an ellipse, the normalized test with both radii enlarged by \<open>pad\<close>; for
  every other kind, the bounding box enlarged by \<open>pad\<close> on all sides, which for integer
  anchors and size below \<open>2\<^sup>5\<^sup>2\<close> is the box test of exact arithmetic.
\<close>

theorem hit_test_resolver:
  "(findHit els p = Some s \<longleftrightarrow>
      (\<exists>pre post. els = pre @ Shape s # post \<and> hitTestShape s p
         \<and> (\<forall>sh. Shape sh \<in> set post \<longrightarrow> \<not> hitTestShape sh p)))
   \<and> (findHit els p = None \<longleftrightarrow> (\<forall>sh. Shape sh \<in> set els \<longrightarrow> \<not> hitTestShape sh p))
   \<and> (agrees ss \<and> tool (live ss) = Select \<longrightarrow>
        (\<exists>ss'. pointerDown newId rnd rect e ss = Inr ss'
           \<and> selectedId (live ss')
             = map_option sh_id (findHit (elements (live ss)) (getCanvasPoint e rect))))
   \<and> hit_pad sh = Math_max (Number 6) (sh_size sh)
   \<and> (sh_shape sh = Line \<longrightarrow>
        hitTestShape sh q
        = (let pad = Math_max (Number 6) (sh_size sh);
               dx = sub64 (sh_x2 sh) (sh_x1 sh);
               dy = sub64 (sh_y2 sh) (sh_y1 sh);
               len2 = add64 (mul64 dx dx) (mul64 dy dy);
               t = Math_max (Number 0) (Math_min (Number 1)
                     (div64 (add64 (mul64 (sub64 (pt_x q) (sh_x1 sh)) dx)
                                   (mul64 (sub64 (pt_y q) (sh_y1 sh)) dy)) len2));
               nx = (if len2 < epsilon then sh_x1 sh else add64 (sh_x1 sh) (mul64 t dx));
               ny = (if len2 < epsilon then sh_y1 sh else add64 (sh_y1 sh) (mul64 t dy));
               ddx = sub64 (pt_x q) nx;
               ddy = sub64 (pt_y q) ny
           in add64 (mul64 ddx ddx) (mul64 ddy ddy)
              \<le> mul64 (add64 pad (Number 2)) (add64 pad (Number 2))))
   \<and> (sh_shape sh = Ellipse \<longrightarrow>
        hitTestShape sh q
        = (let pad = Math_max (Number 6) (sh_size sh);
               l = Math_min (sh_x1 sh) (sh_x2 sh);
               t = Math_min (sh_y1 sh) (sh_y2 sh);
               w = sub64 (Math_max (sh_x1 sh) (sh_x2 sh)) l;
               h = sub64 (Math_max (sh_y1 sh) (sh_y2 sh)) t;
               cx = add64 l (div64 w (Number 2));
               cy = add64 t (div64 h (Number 2));
               rx = add64 (Math_max (Number 1) (div64 w (Number 2))) pad;
               ry = add64 (Math_max (Number 1) (div64 h (Number 2))) pad;
               nx = div64 (sub64 (pt_x q) cx) rx;
               ny = div64 (sub64 (pt_y q) cy) ry
           in add64 (mul64 nx nx) (mul64 ny ny) \<le> Number 1))
   \<and> (sh_shape sh \<noteq> Line \<and> sh_shape sh \<noteq> Ellipse \<longrightarrow>
        hitTestShape sh q
        = (let pad = Math_max (Number 6) (sh_size sh)
           in sub64 (Math_min (sh_x1 sh) (sh_x2 sh)) pad \<le> pt_x q
              \<and> pt_x q \<le> add64 (Math_max (sh_x1 sh) (sh_x2 sh)) pad
              \<and> sub64 (Math_min (sh_y1 sh) (sh_y2 sh)) pad \<le> pt_y q
              \<and> pt_y q \<le> add64 (Math_max (sh_y1 sh) (sh_y2 sh)) pad))
   \<and> (k \<noteq> Line \<and> k \<noteq> Ellipse
        \<and> x1 \<in> \<int> \<and> y1 \<in> \<int> \<and> x2 \<in> \<int> \<and> y2 \<in> \<int> \<and> sz \<in> \<int>
        \<and> \<bar>x1\<bar> < 2 ^ 52 \<and> \<bar>y1\<bar> < 2 ^ 52 \<and> \<bar>x2\<bar> < 2 ^ 52 \<and> \<bar>y2\<bar> < 2 ^ 52 \<and> \<bar>sz\<bar> < 2 ^ 52 \<longrightarrow>
        hitTestShape \<lparr>sh_id = i, sh_shape = k, sh_x1 = Number x1, sh_y1 = Number y1,
               sh_x2 = Number x2, sh_y2 = Number y2, sh_color = c, sh_size = Number sz\<rparr>
          \<lparr>pt_x = Number px, pt_y = Number py\<rparr>
        = (min x1 x2 - max 6 sz \<le> px \<and> px \<le> max x1 x2 + max 6 sz
           \<and> min y1 y2 - max 6 sz \<le> py \<and> py \<le> max y1 y2 + max 6 sz))"
proof (intro conjI impI)
  show "findHit els p = Some s \<longleftrightarrow>
      (\<exists>pre post. els = pre @ Shape s # post \<and> hitTestShape s p
         \<and> (\<forall>sh. Shape sh \<in> set post \<longrightarrow> \<not> hitTestShape sh p))"
    by (rule findHit_Some)
  show "findHit els p = None \<longleftrightarrow> (\<forall>sh. Shape sh \<in> set els \<longrightarrow> \<not> hitTestShape sh p)"
    by (rule findHit_None)
  show "hit_pad sh = Math_max (Number 6) (sh_size sh)"
    by (simp add: hit_pad_def)
next
  assume "agrees ss \<and> tool (live ss) = Select"
  then show "\<exists>ss'. pointerDown newId rnd rect e ss = Inr ss'
           \<and> selectedId (live ss')
             = map_option sh_id (findHit (elements (live ss)) (getCanvasPoint e rect))"
    by (simp add: pointerDown_select)
next
  assume "sh_shape sh = Line"
  then show "hitTestShape sh q
        = (let pad = Math_max (Number 6) (sh_size sh);
               dx = sub64 (sh_x2 sh) (sh_x1 sh);
               dy = sub64 (sh_y2 sh) (sh_y1 sh);
               len2 = add64 (mul64 dx dx) (mul64 dy dy);
               t = Math_max (Number 0) (Math_min (Number 1)
                     (div64 (add64 (mul64 (sub64 (pt_x q) (sh_x1 sh)) dx)
                                   (mul64 (sub64 (pt_y q) (sh_y1 sh)) dy)) len2));
               nx = (if len2 < epsilon then sh_x1 sh else add64 (sh_x1 sh) (mul64 t dx));
               ny = (if len2 < epsilon then sh_y1 sh else add64 (sh_y1 sh) (mul64 t dy));
               ddx = sub64 (pt_x q) nx;
               ddy = sub64 (pt_y q) ny
           in add64 (mul64 ddx ddx) (mul64 ddy ddy)
              \<le> mul64 (add64 pad (Number 2)) (add64 pad (Number 2)))"
    by (rule hit_line)
next
  assume "sh_shape sh = Ellipse"
  then show "hitTestShape sh q
        = (let pad = Math_max (Number 6) (sh_size sh);
               l = Math_min (sh_x1 sh) (sh_x2 sh);
               t = Math_min (sh_y1 sh) (sh_y2 sh);
               w = sub64 (Math_max (sh_x1 sh) (sh_x2 sh)) l;
               h = sub64 (Math_max (sh_y1 sh) (sh_y2 sh)) t;
               cx = add64 l (div64 w (Number 2));
               cy = add64 t (div64 h (Number 2));
               rx = add64 (Math_max (Number 1) (div64 w (Number 2))) pad;
               ry = add64 (Math_max (Number 1) (div64 h (Number 2))) pad;
               nx = div64 (sub64 (pt_x q) cx) rx;
               ny = div64 (sub64 (pt_y q) cy) ry
           in add64 (mul64 nx nx) (mul64 ny ny) \<le> Number 1)"
    by (rule hit_ellipse)
next
  assume "sh_shape sh \<noteq> Line \<and> sh_shape sh \<noteq> Ellipse"
  then show "hitTestShape sh q
        = (let pad = Math_max (Number 6) (sh_size sh)
           in sub64 (Math_min (sh_x1 sh) (sh_x2 sh)) pad \<le> pt_x q
              \<and> pt_x q \<le> add64 (Math_max (sh_x1 sh) (sh_x2 sh)) pad
              \<and> sub64 (Math_min (sh_y1 sh) (sh_y2 sh)) pad \<le> pt_y q
              \<and> pt_y q \<le> add64 (Math_max (sh_y1 sh) (sh_y2 sh)) pad)"
    by (simp add: hit_box)
next
  assume "k \<noteq> Line \<and> k \<noteq> Ellipse
        \<and> x1 \<in> \<int> \<and> y1 \<in> \<int> \<and> x2 \<in> \<int> \<and> y2 \<in> \<int> \<and> sz \<in> \<int>
        \<and> \<bar>x1\<bar> < 2 ^ 52 \<and> \<bar>y1\<bar> < 2 ^ 52 \<and> \<bar>x2\<bar> < 2 ^ 52 \<and> \<bar>y2\<bar> < 2 ^ 52 \<and> \<bar>sz\<bar> < 2 ^ 52"
  then show "hitTestShape \<lparr>sh_id = i, sh_shape = k, sh_x1 = Number x1, sh_y1 = Number y1,
               sh_x2 = Number x2, sh_y2 = Number y2, sh_color = c, sh_size = Number sz\<rparr>
          \<lparr>pt_x = Number px, pt_y = Number py\<rparr>
        = (min x1 x2 - max 6 sz \<le> px \<and> px \<le> max x1 x2 + max 6 sz
           \<and> min y1 y2 - max 6 sz \<le> py \<and> py \<le> max y1 y2 + max 6 sz)"
    by (intro hit_box_integer) simp_all
qed

theorem hit_test_resolver_witness:
  "agrees selectingSession \<and> tool (live selectingSession) = Select
   \<and> sh_shape boundaryLine = Line \<and> sh_shape boundaryEllipse = Ellipse
   \<and> hitTestShape sampleRect \<lparr>pt_x = Number 30, pt_y = Number 25\<rparr>
   \<and> \<not> hitTestShape boundaryLine \<lparr>pt_x = Number 30, pt_y = Number 25\<rparr>
   \<and> findHit [Shape sampleRect, Shape boundaryLine, Stroke pencilStroke]
        \<lparr>pt_x = Number 30, pt_y = Number 25\<rparr> = Some sampleRect
   \<and> \<not> hitTestShape sampleRect \<lparr>pt_x = Number 10, pt_y = Number 0\<rparr>
   \<and> \<not> hitTestShape boundaryLine \<lparr>pt_x = Number 10, pt_y = Number 0\<rparr>
   \<and> findHit [Shape sampleRect, Shape boundaryLine, Stroke pencilStroke]
        \<lparr>pt_x = Number 10, pt_y = Number 0\<rparr> = None
   \<and> \<not> hitTestShape boundaryEllipse \<lparr>pt_x = Number (- 5), pt_y = Number 2\<rparr>
   \<and> (\<exists>ss'. pointerDown ''n'' zeroRandom originRect \<lparr>clientX = Number 30, clientY = Number 25\<rparr>
               selectingSession = Inr ss'
          \<and> selectedId (live ss') = Some ''r1'')"
proof -
  let ?doc = "[Shape sampleRect, Shape boundaryLine, Stroke pencilStroke]"
  note a = hit_test_resolver[of ?doc "\<lparr>pt_x = Number 30, pt_y = Number 25\<rparr>" sampleRect
      selectingSession "''n''" zeroRandom originRect
      "\<lparr>clientX = Number 30, clientY = Number 25\<rparr>" boundaryLine
      "\<lparr>pt_x = Number 10, pt_y = Number 0\<rparr>" Rect 10 10 50 40 6 "''r1''" "''#111111''" 30 25]
  note b = hit_test_resolver[of ?doc "\<lparr>pt_x = Number 10, pt_y = Number 0\<rparr>" sampleRect
      selectingSession "''n''" zeroRandom originRect
      "\<lparr>clientX = Number 10, clientY = Number 0\<rparr>" boundaryEllipse
      "\<lparr>pt_x = Number (- 5), pt_y = Number 2\<rparr>" Rect 10 10 50 40 6 "''r1''" "''#111111''" 10 0]
  have g: "agrees selectingSession" "tool (live selectingSession) = Select"
    by (simp_all add: agrees_def selectingSession_def)
  have k: "sh_shape boundaryLine = Line" "sh_shape boundaryEllipse = Ellipse"
    by (simp_all add: boundaryLine_def boundaryEllipse_def)
  note a8 = a[THEN conjunct2, THEN conjunct2, THEN conjunct2, THEN conjunct2, THEN conjunct2,
      THEN conjunct2, THEN conjunct2]
  note b8 = b[THEN conjunct2, THEN conjunct2, THEN conjunct2, THEN conjunct2, THEN conjunct2,
      THEN conjunct2, THEN conjunct2]
  have h1: "hitTestShape sampleRect \<lparr>pt_x = Number 30, pt_y = Number 25\<rparr>"
    unfolding sampleRect_def using a8 by simp
  have h2: "\<not> hitTestShape sampleRect \<lparr>pt_x = Number 10, pt_y = Number 0\<rparr>"
    unfolding sampleRect_def using b8 by simp
  have m1: "\<not> hitTestShape boundaryLine \<lparr>pt_x = Number 30, pt_y = Number 25\<rparr>"
    by (rule boundaryLine_far)
  have m2: "\<not> hitTestShape boundaryLine \<lparr>pt_x = Number 10, pt_y = Number 0\<rparr>"
    by (rule boundaryLine_miss)
  have "?doc = [] @ Shape sampleRect # [Shape boundaryLine, Stroke pencilStroke]
      \<and> hitTestShape sampleRect \<lparr>pt_x = Number 30, pt_y = Number 25\<rparr>
      \<and> (\<forall>sh. Shape sh \<in> set [Shape boundaryLine, Stroke pencilStroke] \<longrightarrow>
            \<not> hitTestShape sh \<lparr>pt_x = Number 30, pt_y = Number 25\<rparr>)"
    using h1 m1 by simp
  then have f1: "findHit ?doc \<lparr>pt_x = Number 30, pt_y = Number 25\<rparr> = Some sampleRect"
    using a[THEN conjunct1] by blast
  have "\<forall>sh. Shape sh \<in> set ?doc \<longrightarrow> \<not> hitTestShape sh \<lparr>pt_x = Number 10, pt_y = Number 0\<rparr>"
    using h2 m2 by auto
  then have f2: "findHit ?doc \<lparr>pt_x = Number 10, pt_y = Number 0\<rparr> = None"
    using b[THEN conjunct2, THEN conjunct1] by blast
  have p: "getCanvasPoint \<lparr>clientX = Number 30, clientY = Number 25\<rparr> originRect
           = \<lparr>pt_x = Number 30, pt_y = Number 25\<rparr>"
    by (simp add: getCanvasPoint_def originRect_def)
  have el: "elements (live selectingSession) = ?doc"
    by (simp add: selectingSession_def)
  have i: "map_option sh_id (Some sampleRect) = Some ''r1''"
    by (simp add: sampleRect_def)
  have "\<exists>ss'. pointerDown ''n'' zeroRandom originRect \<lparr>clientX = Number 30, clientY = Number 25\<rparr>
               selectingSession = Inr ss'
          \<and> selectedId (live ss')
            = map_option sh_id (findHit (elements (live selectingSession))
                (getCanvasPoint \<lparr>clientX = Number 30, clientY = Number 25\<rparr> originRect))"
    using a[THEN conjunct2, THEN conjunct2, THEN conjunct1] g by blast
  then have d: "\<exists>ss'. pointerDown ''n'' zeroRandom originRect
               \<lparr>clientX = Number 30, clientY = Number 25\<rparr> selectingSession = Inr ss'
          \<and> selectedId (live ss') = Some ''r1''"
    unfolding el p f1 i .
  show ?thesis
    using g k h1 h2 m1 m2 f1 f2 d boundaryEllipse_miss by blast
qed




section \<open>Pentagon and star\<close>

lemma pentagonVertex_Number:
  "pentagonVertex (Number cx) (Number cy) (Number R) n =
     (if n = 0 then MoveTo else LineTo)
       (Number (cx + cos (- pi / 2 + real n * 2 * pi / 5) * R))
       (Number (cy + sin (- pi / 2 + real n * 2 * pi / 5) * R))"
  by (simp add: pentagonVertex_def Math_PI_def jsnat_def Let_def)

lemma starVertex_Number:
  "starVertex (Number cx) (Number cy) (Number R) (Number r) n =
     (if n = 0 then MoveTo else LineTo)
       (Number (cx + cos (- pi / 2 + real n * pi / 5) * (if even n then R else r)))
       (Number (cy + sin (- pi / 2 + real n * pi / 5) * (if even n then R else r)))"
  by (simp add: starVertex_def Math_PI_def jsnat_def Let_def even_iff_mod_2_eq_zero)

lemma upt5: "[0..<5] = [0, 1, 2, 3, 4::nat]" by (simp add: upt_rec)




section \<open>The airbrush sampler: both loops return\<close>

lemma map_upt_Suc_shift: "map f [0..<Suc d] = f 0 # map (\<lambda>m. f (Suc m)) [0..<d]"
  by (simp add: upt_conv_Cons map_Suc_upt[symmetric] del: upt_Suc)

lemma airbrushInner_closed:
  assumes "j \<le> n"
  shows "airbrushInner rnd radius (Number (real n)) x y j dots k
         = Some (dots @ map (\<lambda>m. airbrushDot rnd radius x y (k + 3 * m)) [0..<n - j],
                 k + 3 * (n - j))"
  using assms
proof (induction "n - j" arbitrary: j dots k)
  case 0
  then have "j = n" by simp
  then show ?case
    by (subst airbrushInner.simps) (simp add: jsnat_def)
next
  case (Suc d)
  then have lt: "j < n" and d: "d = n - Suc j" and le: "Suc j \<le> n"
    by simp_all
  have nj: "n - j = Suc d"
    using Suc.hyps(2) by simp
  have "airbrushInner rnd radius (Number (real n)) x y j dots k
        = airbrushInner rnd radius (Number (real n)) x y (Suc j)
            (dots @ [airbrushDot rnd radius x y k]) (k + 3)"
    using lt by (subst airbrushInner.simps) (simp add: jsnat_def)
  also have "\<dots> = Some ((dots @ [airbrushDot rnd radius x y k])
                      @ map (\<lambda>m. airbrushDot rnd radius x y (k + 3 + 3 * m)) [0..<n - Suc j],
                    k + 3 + 3 * (n - Suc j))"
    by (rule Suc.hyps(1)[OF d le])
  also have "\<dots> = Some (dots @ map (\<lambda>m. airbrushDot rnd radius x y (k + 3 * m)) [0..<n - j],
                 k + 3 * (n - j))"
    unfolding nj d[symmetric] map_upt_Suc_shift by (simp add: add.assoc)
  finally show ?case .
qed

lemma airbrushInner_all:
  "airbrushInner rnd radius (Number (real n)) x y 0 dots k
   = Some (dots @ map (\<lambda>m. airbrushDot rnd radius x y (k + 3 * m)) [0..<n], k + 3 * n)"
  using airbrushInner_closed[of 0 n rnd radius x y dots k] by simp

lemma airbrushOuter_closed:
  assumes "i \<le> Suc m" and cnt: "Math_floor (radius * Number 1.6) = Number (real n)"
  shows "airbrushOuter rnd from to (Number (real m)) radius i dots k
         = Some (dots @ concat (map (\<lambda>q. map (\<lambda>j. airbrushDot rnd radius
                      (pt_x from + (pt_x to - pt_x from) * (jsnat (i + q) / Number (real m)))
                      (pt_y from + (pt_y to - pt_y from) * (jsnat (i + q) / Number (real m)))
                      (k + 3 * (q * n + j))) [0..<n]) [0..<Suc m - i]),
                 k + 3 * (n * (Suc m - i)))"
  using assms(1)
proof (induction "Suc m - i" arbitrary: i dots k)
  case 0
  then have "i = Suc m" by simp
  then show ?case
    by (subst airbrushOuter.simps) (simp add: jsnat_def)
next
  case (Suc d)
  then have lt: "i \<le> m" and d: "d = Suc m - Suc i" and le: "Suc i \<le> Suc m"
    by simp_all
  have nj: "Suc m - i = Suc d"
    using Suc.hyps(2) by simp
  let ?x = "\<lambda>q. pt_x from + (pt_x to - pt_x from) * (jsnat q / Number (real m))"
  let ?y = "\<lambda>q. pt_y from + (pt_y to - pt_y from) * (jsnat q / Number (real m))"
  let ?row = "\<lambda>q k. map (\<lambda>j. airbrushDot rnd radius (?x q) (?y q) (k + 3 * j)) [0..<n]"
  have "airbrushOuter rnd from to (Number (real m)) radius i dots k
        = airbrushOuter rnd from to (Number (real m)) radius (Suc i)
            (dots @ ?row i k) (k + 3 * n)"
  proof -
    have c: "jsnat i \<le> Number (real m)"
      using lt by (simp add: jsnat_def)
    show ?thesis
      by (subst airbrushOuter.simps)
         (simp only: c if_True Let_def cnt airbrushInner_all Option.bind.bind_lunit prod.case)
  qed
  also have "\<dots> = Some ((dots @ ?row i k)
        @ concat (map (\<lambda>q. map (\<lambda>j. airbrushDot rnd radius (?x (Suc i + q)) (?y (Suc i + q))
                      (k + 3 * n + 3 * (q * n + j))) [0..<n]) [0..<Suc m - Suc i]),
                 k + 3 * n + 3 * (n * (Suc m - Suc i)))"
    by (rule Suc.hyps(1)[OF d le])
  also have "\<dots> = Some (dots @ concat (map (\<lambda>q. map (\<lambda>j. airbrushDot rnd radius
                      (?x (i + q)) (?y (i + q)) (k + 3 * (q * n + j))) [0..<n]) [0..<Suc m - i]),
                 k + 3 * (n * (Suc m - i)))"
    unfolding nj d[symmetric] map_upt_Suc_shift
    by (simp add: add.assoc distrib_left add.commute add.left_commute)
  finally show ?case .
qed

lemma dist_Number:
  "dist \<lparr>pt_x = Number fx, pt_y = Number fy\<rparr> \<lparr>pt_x = Number tx, pt_y = Number ty\<rparr>
   = Number (sqrt ((fx - tx) * (fx - tx) + (fy - ty) * (fy - ty)))"
proof -
  have "\<not> (fx - tx) * (fx - tx) + (fy - ty) * (fy - ty) < 0"
    by (simp add: not_less)
  then show ?thesis
    by (simp add: dist_def Let_def)
qed

lemma steps_Number:
  "Math_max (Number 1) (Math_floor (Number d / Number 2)) = Number (real (nat (max 1 \<lfloor>d / 2\<rfloor>)))"
  by (simp add: max_def)

lemma count_Number:
  "Math_floor (Number (max 2 sz) * Number 1.6) = Number (real (nat \<lfloor>max 2 sz * 1.6\<rfloor>))"
proof -
  have "0 \<le> max 2 sz * 1.6" by (simp add: max_def)
  then have "0 \<le> \<lfloor>max 2 sz * 1.6\<rfloor>" by simp
  then show ?thesis by simp
qed

lemma airbrushDot_Number:
  assumes "0 \<le> rnd (k + 1)" "rnd (k + 1) \<le> 1" "0 \<le> rnd (k + 2)" "rnd (k + 2) \<le> 1" "0 \<le> radius"
  shows "\<exists>dx dy ds. airbrushDot rnd (Number radius) (Number x) (Number y) k
           = \<lparr>dot_x = Number (x + dx), dot_y = Number (y + dy), dot_r = Number ds,
              dot_a = Number 0.20\<rparr>
         \<and> dx * dx + dy * dy \<le> radius * radius \<and> 1 \<le> ds \<and> ds \<le> max 1 (radius / 3)"
proof -
  define a where "a = rnd k * pi * 2"
  define r where "r = rnd (k + 1) * radius"
  define ds where "ds = max 1 (rnd (k + 2) * (radius / 3))"
  have eq: "airbrushDot rnd (Number radius) (Number x) (Number y) k
           = \<lparr>dot_x = Number (x + cos a * r), dot_y = Number (y + sin a * r), dot_r = Number ds,
              dot_a = Number 0.20\<rparr>"
    by (simp add: airbrushDot_def Math_PI_def Let_def a_def r_def ds_def)
  have r: "0 \<le> r" "r \<le> radius"
    using assms by (simp_all add: r_def mult_left_le_one_le)
  have "(cos a * r) * (cos a * r) + (sin a * r) * (sin a * r) = r * r"
    using sin_cos_squared_add3[of a] by algebra
  also have "\<dots> \<le> radius * radius" using r by (simp add: mult_mono)
  finally have c: "(cos a * r) * (cos a * r) + (sin a * r) * (sin a * r) \<le> radius * radius" .
  have "rnd (k + 2) * (radius / 3) \<le> radius / 3"
    using assms by (simp add: mult_left_le_one_le)
  then have d: "1 \<le> ds" "ds \<le> max 1 (radius / 3)"
    by (simp_all add: ds_def max_def)
  show ?thesis using eq c d by blast
qed

lemma addAirbrushDots_closed:
  assumes "st_size (se_style stroke) = Number sz"
  shows "addAirbrushDots rnd stroke \<lparr>pt_x = Number fx, pt_y = Number fy\<rparr>
           \<lparr>pt_x = Number tx, pt_y = Number ty\<rparr>
         = (let radius = max 2 sz;
                d = sqrt ((fx - tx) * (fx - tx) + (fy - ty) * (fy - ty));
                steps = nat (max 1 \<lfloor>d / 2\<rfloor>);
                count = nat \<lfloor>radius * 1.6\<rfloor>
            in Some (stroke\<lparr>se_dots := Some ((case se_dots stroke of None \<Rightarrow> [] | Some ds \<Rightarrow> ds)
                 @ concat (map (\<lambda>q. map (\<lambda>j. airbrushDot rnd (Number radius)
                      (Number (fx + (tx - fx) * (real q / real steps)))
                      (Number (fy + (ty - fy) * (real q / real steps)))
                      (3 * (q * count + j))) [0..<count]) [0..<Suc steps]))\<rparr>))"
proof -
  define radius where "radius = max 2 sz"
  define d where "d = sqrt ((fx - tx) * (fx - tx) + (fy - ty) * (fy - ty))"
  define steps where "steps = nat (max 1 \<lfloor>d / 2\<rfloor>)"
  define count where "count = nat \<lfloor>radius * 1.6\<rfloor>"
  have s0: "steps \<noteq> 0" by (simp add: steps_def max_def)
  have cnt: "Math_floor (Number radius * Number 1.6) = Number (real count)"
    unfolding radius_def count_def by (rule count_Number)
  have "addAirbrushDots rnd stroke \<lparr>pt_x = Number fx, pt_y = Number fy\<rparr>
           \<lparr>pt_x = Number tx, pt_y = Number ty\<rparr>
        = map_option (\<lambda>(dots', k'). stroke\<lparr>se_dots := Some dots'\<rparr>)
           (airbrushOuter rnd \<lparr>pt_x = Number fx, pt_y = Number fy\<rparr>
              \<lparr>pt_x = Number tx, pt_y = Number ty\<rparr> (Number (real steps)) (Number radius) 0
              (case se_dots stroke of None \<Rightarrow> [] | Some ds \<Rightarrow> ds) 0)"
    unfolding addAirbrushDots_def Let_def dist_Number assms steps_Number Math_max_Number
    by (simp only: steps_def d_def radius_def)
  also have "\<dots> = Some (stroke\<lparr>se_dots := Some ((case se_dots stroke of None \<Rightarrow> [] | Some ds \<Rightarrow> ds)
                 @ concat (map (\<lambda>q. map (\<lambda>j. airbrushDot rnd (Number radius)
                      (Number (fx + (tx - fx) * (real q / real steps)))
                      (Number (fy + (ty - fy) * (real q / real steps)))
                      (3 * (q * count + j))) [0..<count]) [0..<Suc steps]))\<rparr>)"
    using s0 by (subst airbrushOuter_closed[OF _ cnt]) (simp_all add: jsnat_def)
  finally show ?thesis
    by (simp only: Let_def radius_def d_def steps_def count_def)
qed

lemma zero_dot:
  "airbrushDot zeroRandom (Number radius) (Number x) (Number y) k
   = \<lparr>dot_x = Number x, dot_y = Number y, dot_r = Number 1, dot_a = Number 0.20\<rparr>"
  by (simp add: airbrushDot_def zeroRandom_def Math_PI_def Let_def)




section \<open>The airbrush sampler: when the loops do not return\<close>

text \<open>
  A loop whose bound is \<open>Infinity\<close> does not end, and a loop whose bound is NaN is not
  entered.
\<close>

lemma airbrushInner_Infinity_aux:
  assumes "airbrushInner rnd radius count x y j dots k = Some r"
  shows "count \<noteq> Infinity"
proof (rule airbrushInner.raw_induct[where P = "\<lambda>rnd radius count x y j dots k r. count \<noteq> Infinity"
        and xa = "(((((((rnd, radius), count), x), y), j), dots), k)" and ya = r,
        unfolded prod.case])
  show "airbrushInner rnd radius count x y j dots k = Some r"
    by (rule assms)
next
  fix f :: "(nat \<Rightarrow> real) \<Rightarrow> jsnum \<Rightarrow> jsnum \<Rightarrow> jsnum \<Rightarrow> jsnum \<Rightarrow> nat \<Rightarrow> Dot list \<Rightarrow> nat
            \<Rightarrow> (Dot list \<times> nat) option"
  fix rnd radius count x y j dots k r
  assume ih: "\<And>rnd radius count x y j dots k r.
              f rnd radius count x y j dots k = Some r \<Longrightarrow> count \<noteq> Infinity"
    and eq: "(if jsnat j < count
                then f rnd radius count x y (Suc j) (dots @ [airbrushDot rnd radius x y k]) (k + 3)
                else Some (dots, k)) = Some r"
  show "count \<noteq> Infinity"
  proof
    assume c: "count = Infinity"
    have "jsnat j < count" by (simp add: c jsnat_def)
    then have "f rnd radius count x y (Suc j) (dots @ [airbrushDot rnd radius x y k]) (k + 3)
               = Some r"
      using eq by simp
    then show False using ih c by blast
  qed
qed

lemma airbrushInner_Infinity: "airbrushInner rnd radius Infinity x y j dots k = None"
  using airbrushInner_Infinity_aux[of rnd radius Infinity x y j dots k]
  by (cases "airbrushInner rnd radius Infinity x y j dots k") auto

lemma airbrushInner_NaN: "airbrushInner rnd radius NaN x y j dots k = Some (dots, k)"
  by (subst airbrushInner.simps) (simp add: jsnat_def)

lemma airbrushOuter_Infinity_aux:
  assumes "airbrushOuter rnd a b steps radius i dots k = Some r"
  shows "steps \<noteq> Infinity"
proof (rule airbrushOuter.raw_induct[where P = "\<lambda>rnd a b steps radius i dots k r. steps \<noteq> Infinity",
        OF _ assms])
  fix f :: "(nat \<Rightarrow> real) \<Rightarrow> Point \<Rightarrow> Point \<Rightarrow> jsnum \<Rightarrow> jsnum \<Rightarrow> nat \<Rightarrow> Dot list \<Rightarrow> nat
            \<Rightarrow> (Dot list \<times> nat) option"
  fix rnd a b steps radius i dots k r
  assume ih: "\<And>rnd a b steps radius i dots k r.
              f rnd a b steps radius i dots k = Some r \<Longrightarrow> steps \<noteq> Infinity"
    and eq: "(if jsnat i \<le> steps
      then
        (let t = jsnat i / steps;
             x = pt_x a + (pt_x b - pt_x a) * t;
             y = pt_y a + (pt_y b - pt_y a) * t;
             count = Math_floor (radius * Number 1.6)
         in Option.bind (airbrushInner rnd radius count x y 0 dots k)
              (\<lambda>(dots', k'). f rnd a b steps radius (Suc i) dots' k'))
      else Some (dots, k)) = Some r"
  show "steps \<noteq> Infinity"
  proof
    assume c: "steps = Infinity"
    have "jsnat i \<le> steps" by (simp add: c jsnat_def)
    then obtain dots' k' where "f rnd a b steps radius (Suc i) dots' k' = Some r"
      using eq by (auto simp: Let_def bind_eq_Some_conv simp del: divide_jsnum_def plus_jsnum_def minus_jsnum_def times_jsnum_def)
    then show False using ih c by blast
  qed
qed

lemma airbrushOuter_Infinity: "airbrushOuter rnd a b Infinity radius i dots k = None"
  using airbrushOuter_Infinity_aux[of rnd a b Infinity radius i dots k]
  by (cases "airbrushOuter rnd a b Infinity radius i dots k") auto

lemma airbrushOuter_NaN: "airbrushOuter rnd a b NaN radius i dots k = Some (dots, k)"
  by (subst airbrushOuter.simps) (simp add: jsnat_def)

text \<open>With a finite bound, the outer loop returns exactly when the inner loop does.\<close>

lemma airbrushOuter_count_Infinity:
  assumes "Math_floor (radius * Number 1.6) = Infinity"
  shows "airbrushOuter rnd a b (Number (real m)) radius 0 dots k = None"
proof -
  have c: "jsnat 0 \<le> Number (real m)"
    by (simp add: jsnat_def)
  show ?thesis
    by (subst airbrushOuter.simps)
       (simp only: c if_True Let_def assms airbrushInner_Infinity Option.bind.bind_lzero)
qed

lemma airbrushOuter_count_NaN:
  assumes "i \<le> Suc m" and cnt: "Math_floor (radius * Number 1.6) = NaN"
  shows "airbrushOuter rnd a b (Number (real m)) radius i dots k = Some (dots, k)"
  using assms(1)
proof (induction "Suc m - i" arbitrary: i)
  case 0
  then have "i = Suc m" by simp
  then show ?case
    by (subst airbrushOuter.simps) (simp add: jsnat_def)
next
  case (Suc d)
  then have lt: "i \<le> m" and d: "d = Suc m - Suc i" and le: "Suc i \<le> Suc m"
    by simp_all
  have c: "jsnat i \<le> Number (real m)"
    using lt by (simp add: jsnat_def)
  have "airbrushOuter rnd a b (Number (real m)) radius i dots k
        = airbrushOuter rnd a b (Number (real m)) radius (Suc i) dots k"
    by (subst airbrushOuter.simps)
       (simp only: c if_True Let_def cnt airbrushInner_NaN Option.bind.bind_lunit prod.case)
  then show ?case
    using Suc.hyps(1)[OF d le] by simp
qed

text \<open>
  The values that the distance, the number of steps and the number of particles at a
  step can take.
\<close>

lemma sqrt_cases:
  "(\<exists>r. Math_sqrt a = Number r) \<or> Math_sqrt a = Infinity \<or> Math_sqrt a = NaN"
  by (cases a) auto

lemma dist_cases:
  "(\<exists>r. dist a b = Number r) \<or> dist a b = Infinity \<or> dist a b = NaN"
  unfolding dist_def Let_def by (rule sqrt_cases)

lemma steps_values:
  "Math_max (Number 1) (Math_floor (Number r / Number 2))
     = Number (real (nat (max 1 \<lfloor>r / 2\<rfloor>)))"
  "Math_max (Number 1) (Math_floor (Infinity / Number 2)) = Infinity"
  "Math_max (Number 1) (Math_floor (NaN / Number 2)) = NaN"
  by (simp_all add: max_def Math_max_def)

lemma count_values:
  "\<exists>n. Math_floor (Math_max (Number 2) (Number sz) * Number 1.6) = Number (real n)"
  "Math_floor (Math_max (Number 2) Infinity * Number 1.6) = Infinity"
  "\<exists>n. Math_floor (Math_max (Number 2) NegInfinity * Number 1.6) = Number (real n)"
  "Math_floor (Math_max (Number 2) NaN * Number 1.6) = NaN"
  "\<exists>n. Math_floor (Math_max (Number 2) Null * Number 1.6) = Number (real n)"
proof -
  have "Math_floor (Math_max (Number 2) (Number sz) * Number 1.6)
        = Number (real (nat \<lfloor>max 2 sz * 1.6\<rfloor>))"
    unfolding Math_max_Number by (rule count_Number)
  then show "\<exists>n. Math_floor (Math_max (Number 2) (Number sz) * Number 1.6) = Number (real n)"
    by (rule exI)
  show "Math_floor (Math_max (Number 2) Infinity * Number 1.6) = Infinity"
    by (simp add: Math_max_def signedInfinity_def)
  show "Math_floor (Math_max (Number 2) NaN * Number 1.6) = NaN"
    by (simp add: Math_max_def)
  have "Math_floor (Number 2 * Number 1.6) = Number (real 3)"
    by simp
  then show "\<exists>n. Math_floor (Math_max (Number 2) NegInfinity * Number 1.6) = Number (real n)"
    "\<exists>n. Math_floor (Math_max (Number 2) Null * Number 1.6) = Number (real n)"
    by (auto simp: Math_max_def)
qed

text \<open>
  The sampler does not return exactly when the distance is infinite, or is a number while
  the size is infinite. When it returns, it has changed the particles of the stroke only.
\<close>

lemma addAirbrushDots_None:
  "addAirbrushDots rnd st a b = None
   \<longleftrightarrow> dist a b = Infinity \<or> (dist a b \<noteq> NaN \<and> st_size (se_style st) = Infinity)"
proof -
  define radius where "radius = Math_max (Number 2) (st_size (se_style st))"
  define cnt where "cnt = Math_floor (radius * Number 1.6)"
  define ds where "ds = (case se_dots st of None \<Rightarrow> [] | Some ds \<Rightarrow> ds)"
  have u: "addAirbrushDots rnd st a b = None
           \<longleftrightarrow> airbrushOuter rnd a b (Math_max (Number 1) (Math_floor (dist a b / Number 2)))
                 radius 0 ds 0 = None"
    by (simp add: addAirbrushDots_def Let_def radius_def ds_def)
  have c: "(cnt = Infinity \<and> st_size (se_style st) = Infinity)
           \<or> (cnt = NaN \<and> st_size (se_style st) \<noteq> Infinity)
           \<or> ((\<exists>n. cnt = Number (real n)) \<and> st_size (se_style st) \<noteq> Infinity)"
    unfolding cnt_def radius_def using count_values
    by (cases "st_size (se_style st)") simp_all
  consider (num) r where "dist a b = Number r" | (inf) "dist a b = Infinity"
    | (nan) "dist a b = NaN"
    using dist_cases by blast
  then show ?thesis
  proof cases
    case (num r)
    define m where "m = nat (max 1 \<lfloor>r / 2\<rfloor>)"
    have s: "Math_max (Number 1) (Math_floor (dist a b / Number 2)) = Number (real m)"
      unfolding num m_def by (rule steps_values)
    from c show ?thesis
    proof (elim disjE conjE exE)
      assume "cnt = Infinity" "st_size (se_style st) = Infinity"
      then show ?thesis
        unfolding u s using airbrushOuter_count_Infinity[of radius rnd a b m ds 0] num
        by (simp add: cnt_def)
    next
      assume "cnt = NaN" "st_size (se_style st) \<noteq> Infinity"
      then show ?thesis
        unfolding u s using airbrushOuter_count_NaN[of 0 m radius rnd a b ds 0] num
        by (simp add: cnt_def)
    next
      fix n assume "cnt = Number (real n)" "st_size (se_style st) \<noteq> Infinity"
      then show ?thesis
        unfolding u s using airbrushOuter_closed[of 0 m radius n rnd a b ds 0] num
        by (simp add: cnt_def)
    qed
  next
    case inf
    then show ?thesis
      unfolding u by (simp only: steps_values airbrushOuter_Infinity) simp
  next
    case nan
    then show ?thesis
      unfolding u by (simp only: steps_values airbrushOuter_NaN) simp
  qed
qed

lemma addAirbrushDots_Some:
  assumes "addAirbrushDots rnd st a b = Some st'"
  shows "\<exists>dots. st' = st\<lparr>se_dots := Some dots\<rparr>"
  using assms by (auto simp: addAirbrushDots_def Let_def)

section \<open>The reducer: pointer moves and presses\<close>

text \<open>
  A move changes refs only, so in a session no dependency changes and the bound handlers
  stay.
\<close>

lemma rerender_refs:
  assumes "agrees ss" "deps s' = deps (live ss)"
  shows "rerender s' ss = ss\<lparr>live := s'\<rparr>"
  using assms by (simp add: rerender_def agrees_def deps_def)

lemma onPointerMove_stroke:
  assumes "tool c = Pen \<or> tool c = Eraser" "activeStrokeRef s = Some st"
    "\<not> (st_tool (se_style st) = StrokePen \<and> st_brush (se_style st) = Airbrush)"
  shows "onPointerMove rnd rect e c s
         = Inr (s\<lparr>activeStrokeRef :=
                  Some (st\<lparr>se_points := se_points st @ [getCanvasPoint e rect]\<rparr>)\<rparr>)"
  using assms by (auto simp: onPointerMove_def Let_def)

lemma onPointerMove_airbrush:
  assumes "tool c = Pen \<or> tool c = Eraser" "activeStrokeRef s = Some st"
    "st_tool (se_style st) = StrokePen" "st_brush (se_style st) = Airbrush"
    "se_points st \<noteq> []"
  shows "onPointerMove rnd rect e c s
         = (case addAirbrushDots rnd (st\<lparr>se_points := se_points st @ [getCanvasPoint e rect]\<rparr>)
                   (last (se_points st)) (getCanvasPoint e rect) of
              None \<Rightarrow> Inl Diverges
            | Some st2 \<Rightarrow> Inr (s\<lparr>activeStrokeRef := Some st2\<rparr>))"
proof -
  have "at_index (se_points st) (int (length (se_points st)) - 1) = Some (last (se_points st))"
    using assms(5) by (simp add: at_index_def last_conv_nth nat_diff_distrib')
  then show ?thesis
    using assms(1-4) by (auto simp: onPointerMove_def Let_def)
qed

lemma onPointerMove_shape:
  assumes "tool c = ShapeTool" "activeShapeRef s = Some sh"
  shows "onPointerMove rnd rect e c s
         = Inr (s\<lparr>activeShapeRef := Some (sh\<lparr>sh_x2 := pt_x (getCanvasPoint e rect),
                                                sh_y2 := pt_y (getCanvasPoint e rect)\<rparr>)\<rparr>)"
  using assms by (auto simp: onPointerMove_def Let_def)

lemma onPointerDown_shape:
  assumes "tool c = ShapeTool"
  shows "onPointerDown newId rnd rect e c s
         = Inr (s\<lparr>selectedId := None,
                  activeShapeRef := Some \<lparr>sh_id = newId, sh_shape = shapeTypeRef s,
                    sh_x1 = pt_x (getCanvasPoint e rect), sh_y1 = pt_y (getCanvasPoint e rect),
                    sh_x2 = pt_x (getCanvasPoint e rect), sh_y2 = pt_y (getCanvasPoint e rect),
                    sh_color = color c, sh_size = size' c\<rparr>\<rparr>)"
  using assms by (simp add: onPointerDown_def Let_def)

lemma pointerMove_airbrush:
  assumes a: "agrees ss" and t: "tool (live ss) = Pen \<or> tool (live ss) = Eraser"
    and st: "activeStrokeRef (live ss) = Some st"
    and b: "st_tool (se_style st) = StrokePen" "st_brush (se_style st) = Airbrush"
    and p: "se_points st \<noteq> []"
  shows "if dist (last (se_points st)) (getCanvasPoint e rect) = Infinity
            \<or> (dist (last (se_points st)) (getCanvasPoint e rect) \<noteq> NaN
                \<and> st_size (se_style st) = Infinity)
         then pointerMove rnd rect e ss = Inl Diverges
         else \<exists>dots. pointerMove rnd rect e ss
                = Inr (ss\<lparr>live := (live ss)\<lparr>activeStrokeRef :=
                         Some (st\<lparr>se_points := se_points st @ [getCanvasPoint e rect],
                                   se_dots := Some dots\<rparr>)\<rparr>\<rparr>)"
proof -
  define q where "q = getCanvasPoint e rect"
  define st1 where "st1 = st\<lparr>se_points := se_points st @ [q]\<rparr>"
  have tc: "tool (bound ss) = Pen \<or> tool (bound ss) = Eraser"
    using a t by (simp add: agrees_def)
  have m: "onPointerMove rnd rect e (bound ss) (live ss)
           = (case addAirbrushDots rnd st1 (last (se_points st)) q of
                None \<Rightarrow> Inl Diverges
              | Some st2 \<Rightarrow> Inr ((live ss)\<lparr>activeStrokeRef := Some st2\<rparr>))"
    unfolding st1_def q_def by (rule onPointerMove_airbrush[OF tc st b p])
  have sz: "st_size (se_style st1) = st_size (se_style st)"
    by (simp add: st1_def)
  show ?thesis
  proof (cases "addAirbrushDots rnd st1 (last (se_points st)) q")
    case None
    then have "dist (last (se_points st)) q = Infinity
               \<or> (dist (last (se_points st)) q \<noteq> NaN \<and> st_size (se_style st) = Infinity)"
      using addAirbrushDots_None[of rnd st1 "last (se_points st)" q] sz by simp
    moreover have "pointerMove rnd rect e ss = Inl Diverges"
      using None by (simp add: pointerMove_def m)
    ultimately show ?thesis
      by (simp add: q_def)
  next
    case (Some st2)
    then have n: "\<not> (dist (last (se_points st)) q = Infinity
               \<or> (dist (last (se_points st)) q \<noteq> NaN \<and> st_size (se_style st) = Infinity))"
      using addAirbrushDots_None[of rnd st1 "last (se_points st)" q] sz by simp
    obtain dots where d: "st2 = st1\<lparr>se_dots := Some dots\<rparr>"
      using addAirbrushDots_Some[OF Some] by blast
    have "rerender ((live ss)\<lparr>activeStrokeRef := Some st2\<rparr>) ss
          = ss\<lparr>live := (live ss)\<lparr>activeStrokeRef := Some st2\<rparr>\<rparr>"
      by (rule rerender_refs[OF a]) (simp add: deps_def)
    then have "pointerMove rnd rect e ss
          = Inr (ss\<lparr>live := (live ss)\<lparr>activeStrokeRef :=
                   Some (st\<lparr>se_points := se_points st @ [q], se_dots := Some dots\<rparr>)\<rparr>\<rparr>)"
      using Some by (simp add: pointerMove_def m d st1_def)
    then show ?thesis
      using n by (auto simp: q_def)
  qed
qed




section \<open>The stored item: what is saved, and what a load makes of it\<close>

lemma numberOf_jsonNumber: "numberOf (Some (jsonNumber a)) = Some (reparsedNumber a)"
  by (cases a) simp_all

lemma jsonNumber_reparsed: "jsonNumber (reparsedNumber a) = jsonNumber a"
  by (cases a) simp_all

lemma reparsedNumber_idem: "reparsedNumber (reparsedNumber a) = reparsedNumber a"
  by (cases a) simp_all

lemma readList_map:
  assumes "\<And>x. f (g x) = Some (h x)"
  shows "readList f (map g xs) = Some (map h xs)"
  by (induction xs) (simp_all add: assms)

lemma readPoint_jsonPoint: "readPoint (jsonPoint p) = Some (reparsedPoint p)"
  by (simp add: readPoint_def jsonPoint_def reparsedPoint_def numberOf_jsonNumber)

lemma readDot_jsonDot: "readDot (jsonDot d) = Some (reparsedDot d)"
  by (simp add: readDot_def jsonDot_def reparsedDot_def numberOf_jsonNumber)

lemma enumOf_strokeTool:
  "enumOf strokeToolName [StrokePen, StrokeEraser] (Some (JString (strokeToolName t))) = Some t"
  by (cases t) (simp_all add: enumOf_def)

lemma enumOf_brush:
  "enumOf brushName [Pencil, Marker, Highlighter, Airbrush] (Some (JString (brushName b)))
   = Some b"
  by (cases b) (simp_all add: enumOf_def)

lemma enumOf_shape:
  "enumOf shapeName [Rect, Ellipse, Triangle, Star, Line, Pentagon, Tree, Umbrella, Heart]
     (Some (JString (shapeName k))) = Some k"
  by (cases k) (simp_all add: enumOf_def)

lemma readStyle_jsonStyle:
  "readStyle (jsonStyle st)
   = Some \<lparr>st_tool = st_tool st, st_brush = st_brush st, st_color = st_color st,
           st_size = reparsedNumber (st_size st)\<rparr>"
  by (simp add: readStyle_def jsonStyle_def enumOf_strokeTool enumOf_brush numberOf_jsonNumber)

lemma readStroke_jsonStroke:
  "readStroke (jsonStroke st)
   = Some \<lparr>se_id = se_id st, se_points = map reparsedPoint (se_points st),
           se_style = \<lparr>st_tool = st_tool (se_style st), st_brush = st_brush (se_style st),
                        st_color = st_color (se_style st),
                        st_size = reparsedNumber (st_size (se_style st))\<rparr>,
           se_dots = map_option (map reparsedDot) (se_dots st)\<rparr>"
  by (cases "se_dots st")
     (simp_all add: readStroke_def jsonStroke_def readDots_def readStyle_jsonStyle
        readList_map[of readPoint jsonPoint reparsedPoint, OF readPoint_jsonPoint]
        readList_map[of readDot jsonDot reparsedDot, OF readDot_jsonDot])

lemma readShape_jsonShape:
  "readShape (jsonShape sh)
   = Some \<lparr>sh_id = sh_id sh, sh_shape = sh_shape sh,
           sh_x1 = reparsedNumber (sh_x1 sh), sh_y1 = reparsedNumber (sh_y1 sh),
           sh_x2 = reparsedNumber (sh_x2 sh), sh_y2 = reparsedNumber (sh_y2 sh),
           sh_color = sh_color sh, sh_size = reparsedNumber (sh_size sh)\<rparr>"
  by (simp add: readShape_def jsonShape_def enumOf_shape numberOf_jsonNumber)

text \<open>\<open>JSON.parse\<close> of what \<open>JSON.stringify\<close> wrote for an element.\<close>

lemma kind_member:
  "stringOf (member ''kind'' (jsonStroke st)) = Some ''stroke''"
  "stringOf (member ''kind'' (jsonShape sh)) = Some ''shape''"
  by (simp_all add: jsonStroke_def jsonShape_def)

lemma readElement_jsonElement: "readElement (jsonElement el) = Some (reparsedElement el)"
  by (cases el)
     (simp_all add: readElement_def kind_member readStroke_jsonStroke readShape_jsonShape)

text \<open>What has been read is written as it was.\<close>

lemma jsonElement_reparsed: "jsonElement (reparsedElement el) = jsonElement el"
proof (cases el)
  case (Stroke st)
  have p: "jsonPoint (reparsedPoint q) = jsonPoint q" for q
    by (simp add: jsonPoint_def reparsedPoint_def jsonNumber_reparsed)
  have d: "jsonDot (reparsedDot q) = jsonDot q" for q
    by (simp add: jsonDot_def reparsedDot_def jsonNumber_reparsed)
  show ?thesis
    unfolding Stroke
    by (cases "se_dots st")
       (simp_all add: jsonStroke_def jsonStyle_def jsonNumber_reparsed p d comp_def)
next
  case (Shape sh)
  show ?thesis
    unfolding Shape by (simp add: jsonShape_def jsonNumber_reparsed)
qed

lemma jsonScene_reparsed: "jsonScene (map reparsedElement scene) = jsonScene scene"
  by (simp add: jsonScene_def jsonElement_reparsed comp_def)

lemma reparsedElement_idem: "reparsedElement (reparsedElement el) = reparsedElement el"
proof (cases el)
  case (Stroke st)
  have p: "reparsedPoint (reparsedPoint q) = reparsedPoint q" for q
    by (simp add: reparsedPoint_def reparsedNumber_idem)
  have d: "reparsedDot (reparsedDot q) = reparsedDot q" for q
    by (simp add: reparsedDot_def reparsedNumber_idem)
  show ?thesis
    unfolding Stroke
    by (cases "se_dots st") (simp_all add: reparsedNumber_idem p d comp_def)
next
  case (Shape sh)
  show ?thesis
    unfolding Shape by (simp add: reparsedNumber_idem)
qed

text \<open>A load of a saved item, followed by the seed of the history.\<close>

lemma mount_saved:
  "mount sc (Item (savedItem scene n))
   = Some \<lparr>live = initialApp\<lparr>structuredCloneDefined := sc, storage := Item (savedItem scene n),
                              elements := map reparsedElement scene, elementsId := 1,
                              history := [[]], historyIndex := 0\<rparr>,
           bound = initialApp\<lparr>structuredCloneDefined := sc, storage := Item (savedItem scene n),
                               elements := map reparsedElement scene, elementsId := 1,
                               history := [[]], historyIndex := 0\<rparr>\<rparr>"
proof -
  have r: "readList readElement (map jsonElement scene) = Some (map reparsedElement scene)"
    by (rule readList_map) (rule readElement_jsonElement)
  show ?thesis
    by (simp add: mount_def loadEffect_def savedItem_def jsonScene_def r seedHistory_def
        setElements_def rerender_def deps_def initialApp_def Let_def)
qed



end
